theory Spec2Isabelle
  imports Complex_Main
begin

section \<open>Conventions of the embedding\<close>

text \<open>
  The Python sources are \<^verbatim>\<open>protons/app/proposals.py\<close> and
  \<^verbatim>\<open>protons/calibration.py\<close>. Python integers are \<^typ>\<open>int\<close> (counters that only
  ever count upwards from zero are \<^typ>\<open>nat\<close>); Python and numpy floats are idealised as
  \<^typ>\<open>real\<close>, so rounding, infinities and NaN are outside the model, except where a
  result is decided by rounding (the sum that the constructor of \<^verbatim>\<open>CategoricalProposal\<close>
  compares with 1, the checks of \<^verbatim>\<open>np.random.choice\<close>, the sum of a population vector):
  there the binary64 operations are written out.
  Every \<^verbatim>\<open>raise\<close> is a value \<open>Inl e\<close> of a sum type, with the exception class and its
  message. Random draws are explicit arguments of the functions that consume them.
\<close>

datatype error =
    ValueError string
  | RuntimeError string
  | TypeError string
  | IndexError
  | ZeroDivisionError

section \<open>Binary64 arithmetic\<close>

text \<open>
  Where the rounding of a float operation decides a property, the operation is modelled
  as the exact operation followed by rounding to the nearest binary64 number, ties to
  even: a real \<open>x\<close> with \<open>2 ^ n \<le> \<bar>x\<bar> < 2 ^ (n + 1)\<close> is rounded to a multiple of
  \<open>2 ^ (n - 52)\<close>. Overflow and subnormal numbers are not modelled.
\<close>

definition round_half_even :: "real \<Rightarrow> int" where
  "round_half_even x =
     (let f = \<lfloor>x\<rfloor>; r = x - of_int f
      in if r < 1 / 2 then f else if r > 1 / 2 then f + 1
         else if even f then f else f + 1)"

definition fl :: "real \<Rightarrow> real" where
  "fl x =
     (if x = 0 then 0
      else (let e = \<lfloor>log 2 \<bar>x\<bar>\<rfloor> - 52
            in of_int (round_half_even (x / 2 powr of_int e)) * 2 powr of_int e))"

definition fadd :: "real \<Rightarrow> real \<Rightarrow> real" where
  "fadd x y = fl (x + y)"

definition fsub :: "real \<Rightarrow> real \<Rightarrow> real" where
  "fsub x y = fl (x - y)"

definition fdiv :: "real \<Rightarrow> real \<Rightarrow> real" where
  "fdiv x y = fl (x / y)"

text \<open>
  Python's \<^verbatim>\<open>sum\<close> adds from the left, starting from the integer 0, and rounds after
  every addition.
\<close>

definition sum64 :: "real list \<Rightarrow> real" where
  "sum64 xs = foldl fadd 0 xs"

section \<open>Salt swaps: \<^verbatim>\<open>proposals.py\<close>\<close>

subsection \<open>The swap dictionary\<close>

text \<open>
  \<^verbatim>\<open>swaps = dict(water_to_cation=0, water_to_anion=0, cation_to_water=0, anion_to_water=0)\<close>
  is created with exactly these four keys and is only ever read and updated at them, so it
  is a record with four integer fields.
\<close>

record swaps =
  water_to_cation :: int
  water_to_anion :: int
  cation_to_water :: int
  anion_to_water :: int

subsection \<open>\<^verbatim>\<open>SaltSwapProposal._validate_swaps\<close>\<close>

definition validate_swaps :: "swaps \<Rightarrow> error + unit" where
  "validate_swaps sw =
    (if water_to_cation sw \<noteq> 0 \<and> water_to_anion sw \<noteq> 0 then
       Inl (RuntimeError ''Opposing charge ions are added. This is a bug in the code.'')
     else if cation_to_water sw \<noteq> 0 \<and> anion_to_water sw \<noteq> 0 then
       Inl (RuntimeError ''Opposing charge ions are removed. This is a bug in the code.'')
     else if cation_to_water sw \<noteq> 0 \<and> water_to_cation sw \<noteq> 0 then
       Inl (RuntimeError
         ''Cations are being added and removed at the same time. This is a bug in the code.'')
     else if anion_to_water sw \<noteq> 0 \<and> water_to_anion sw \<noteq> 0 then
       Inl (RuntimeError
         ''Anions are being added and removed at the same time. This is a bug in the code.'')
     else Inr ())"

text \<open>The number of the four counts that are nonzero.\<close>

definition nonzero_counts :: "swaps \<Rightarrow> nat" where
  "nonzero_counts sw =
     length (filter (\<lambda>c. c \<noteq> 0)
       [water_to_cation sw, water_to_anion sw, cation_to_water sw, anion_to_water sw])"

subsection \<open>\<^verbatim>\<open>OneDirectionChargeProposal._select_swaps_chenroux\<close>\<close>

text \<open>
  The loop mutates three local variables: the dictionary, \<^verbatim>\<open>charge_to_counter\<close> and the
  parameter \<^verbatim>\<open>initial_charge\<close>; \<^verbatim>\<open>final_charge\<close> is only read.
\<close>

record chenroux_state =
  swaps_of :: swaps
  charge_to_counter :: int
  initial_charge :: int

text \<open>
  One pass through the body of the \<^verbatim>\<open>while\<close> loop. A Python chain \<^verbatim>\<open>a > 0 >= b\<close> is
  \<^verbatim>\<open>a > 0 and 0 >= b\<close>.
\<close>

definition chenroux_body :: "int \<Rightarrow> chenroux_state \<Rightarrow> error + chenroux_state" where
  "chenroux_body final_charge s =
    (let i = initial_charge s; sw = swaps_of s; c = charge_to_counter s in
     if (i > 0 \<and> 0 \<ge> final_charge) \<or> (0 < final_charge \<and> final_charge < i) then
       Inr \<lparr>swaps_of = sw\<lparr>water_to_cation := water_to_cation sw + 1\<rparr>,
            charge_to_counter = c + 1, initial_charge = i - 1\<rparr>
     else if (i < 0 \<and> 0 \<le> final_charge) \<or> (0 > final_charge \<and> final_charge > i) then
       Inr \<lparr>swaps_of = sw\<lparr>water_to_anion := water_to_anion sw + 1\<rparr>,
            charge_to_counter = c - 1, initial_charge = i + 1\<rparr>
     else if (i = 0 \<and> 0 > final_charge) \<or> (0 > i \<and> i > final_charge) then
       Inr \<lparr>swaps_of = sw\<lparr>anion_to_water := anion_to_water sw + 1\<rparr>,
            charge_to_counter = c + 1, initial_charge = i - 1\<rparr>
     else if (i = 0 \<and> 0 < final_charge) \<or> (0 < i \<and> i < final_charge) then
       Inr \<lparr>swaps_of = sw\<lparr>cation_to_water := cation_to_water sw + 1\<rparr>,
            charge_to_counter = c - 1, initial_charge = i + 1\<rparr>
     else Inl (ValueError ''Impossible scenario reached.''))"

text \<open>
  The loop \<^verbatim>\<open>while abs(charge_to_counter) > 0\<close>. It is total on every loop state: each
  pass that does not raise moves \<^verbatim>\<open>initial_charge\<close> one unit towards \<^verbatim>\<open>final_charge\<close>.
\<close>

function chenroux_loop :: "int \<Rightarrow> chenroux_state \<Rightarrow> error + swaps" where
  "chenroux_loop final_charge s =
    (if \<bar>charge_to_counter s\<bar> > 0 then
       (case chenroux_body final_charge s of
          Inl e \<Rightarrow> Inl e
        | Inr s' \<Rightarrow> chenroux_loop final_charge s')
     else Inr (swaps_of s))"
  by pat_completeness auto
termination
proof (relation "measure (\<lambda>(f, s). nat \<bar>f - initial_charge s\<bar>)")
  show "wf (measure (\<lambda>(f, s). nat \<bar>f - initial_charge s\<bar>))" by simp
next
  fix final_charge :: int and s x2 :: chenroux_state
  assume "chenroux_body final_charge s = Inr x2"
  then have "\<bar>final_charge - initial_charge x2\<bar> < \<bar>final_charge - initial_charge s\<bar>"
    by (auto simp: chenroux_body_def Let_def split: if_splits)
  then show "((final_charge, x2), (final_charge, s))
      \<in> measure (\<lambda>(f, s). nat \<bar>f - initial_charge s\<bar>)"
    by simp
qed

declare chenroux_loop.simps [simp del]

definition chenroux_init :: "int \<Rightarrow> int \<Rightarrow> chenroux_state" where
  "chenroux_init initial final_charge =
     \<lparr>swaps_of = \<lparr>water_to_cation = 0, water_to_anion = 0,
                  cation_to_water = 0, anion_to_water = 0\<rparr>,
      charge_to_counter = final_charge - initial,
      initial_charge = initial\<rparr>"

definition select_swaps_chenroux :: "int \<Rightarrow> int \<Rightarrow> error + swaps" where
  "select_swaps_chenroux initial final_charge =
     chenroux_loop final_charge (chenroux_init initial final_charge)"

text \<open>
  The charge that a plan adds to the solvent: a water turned into a cation and an anion
  turned into water each add \<open>+1\<close>, a water turned into an anion and a cation turned into
  water each add \<open>-1\<close>.
\<close>

definition net_charge :: "swaps \<Rightarrow> int" where
  "net_charge sw =
     water_to_cation sw + anion_to_water sw - water_to_anion sw - cation_to_water sw"

text \<open>
  The first \<open>n\<close> passes of the loop: the state after them, or the error of the pass that
  raised. Once the loop condition is false the state stays as it is.
\<close>

fun chenroux_iterate :: "nat \<Rightarrow> int \<Rightarrow> chenroux_state \<Rightarrow> error + chenroux_state" where
  "chenroux_iterate 0 final_charge s = Inr s"
| "chenroux_iterate (Suc n) final_charge s =
    (if \<bar>charge_to_counter s\<bar> > 0 then
       (case chenroux_body final_charge s of
          Inl e \<Rightarrow> Inl e
        | Inr s' \<Rightarrow> chenroux_iterate n final_charge s')
     else Inr s)"

text \<open>
  The invariant of the loop: the residual is the distance that \<^verbatim>\<open>initial_charge\<close> still
  has to travel, and the swaps counted so far have added the charge already countered.
\<close>

definition chenroux_inv :: "int \<Rightarrow> int \<Rightarrow> chenroux_state \<Rightarrow> bool" where
  "chenroux_inv i0 f s \<longleftrightarrow>
     charge_to_counter s = f - initial_charge s \<and>
     net_charge (swaps_of s) = charge_to_counter s - (f - i0)"

subsection \<open>Random sources\<close>

text \<open>
  The generators of \<^verbatim>\<open>random\<close> and \<^verbatim>\<open>numpy.random\<close> are a list of natural numbers
  that is consumed from the front (an exhausted list yields 0). Drawing \<open>k\<close> elements
  without replacement picks a position of the remaining pool with each number. Both
  \<^verbatim>\<open>random.sample(population, k)\<close> and \<^verbatim>\<open>np.random.choice(a, size=k, replace=False)\<close>
  raise a \<^verbatim>\<open>ValueError\<close> when \<open>k\<close> exceeds the size of the population.
\<close>

type_synonym rng = "nat list"

fun draw_distinct :: "nat \<Rightarrow> 'a list \<Rightarrow> rng \<Rightarrow> 'a list \<times> rng" where
  "draw_distinct 0 pool g = ([], g)"
| "draw_distinct (Suc k) [] g = ([], g)"
| "draw_distinct (Suc k) (p # ps) g =
     (let j = (case g of [] \<Rightarrow> 0 | r # _ \<Rightarrow> r mod length (p # ps));
          (chosen, g') = draw_distinct k (take j (p # ps) @ drop (Suc j) (p # ps)) (tl g)
      in ((p # ps) ! j # chosen, g'))"

definition random_sample :: "'a list \<Rightarrow> nat \<Rightarrow> rng \<Rightarrow> error + ('a list \<times> rng)" where
  "random_sample population k g =
     (if k > length population then Inl (ValueError ''Sample larger than population'')
      else Inr (draw_distinct k population g))"

definition np_random_choice :: "'a list \<Rightarrow> nat \<Rightarrow> rng \<Rightarrow> error + ('a list \<times> rng)" where
  "np_random_choice a k g =
     (if k > length a then
        Inl (ValueError ''Cannot take a larger sample than population when replace=False'')
      else Inr (draw_distinct k a g))"

text \<open>\<^verbatim>\<open>random.choice(range(n))\<close> raises an \<^verbatim>\<open>IndexError\<close> on an empty range.\<close>

definition random_choice_range :: "nat \<Rightarrow> rng \<Rightarrow> error + (nat \<times> rng)" where
  "random_choice_range n g =
     (if n = 0 then Inl IndexError
      else Inr ((case g of [] \<Rightarrow> 0 | r # _ \<Rightarrow> r mod n), tl g))"

text \<open>
  \<^verbatim>\<open>np.random.choice(a, 1, p=p)\<close>. numpy checks its arguments in this order: \<open>a\<close> is
  positive, \<open>p\<close> has \<open>a\<close> entries, no entry is negative, and the compensated (Kahan) sum of
  \<open>p\<close> is within \<open>sqrt(eps) = 2 ^ -26\<close> of 1. It then draws by inverting the cumulative
  distribution at a uniform variate \<open>u\<close> of \<open>[0, 1)\<close>: \<^verbatim>\<open>cdf = p.cumsum()\<close>,
  \<^verbatim>\<open>cdf /= cdf[-1]\<close>, and the result is \<^verbatim>\<open>cdf.searchsorted(u, side='right')\<close>, the
  number of entries of \<open>cdf\<close> that are at most \<open>u\<close>. All of it is binary64 arithmetic.
\<close>

fun kahan_loop :: "real \<Rightarrow> real \<Rightarrow> real list \<Rightarrow> real" where
  "kahan_loop s c [] = s"
| "kahan_loop s c (d # ds) =
     (let y = fsub d c; t = fadd s y
      in kahan_loop t (fsub (fsub t s) y) ds)"

definition kahan_sum :: "real list \<Rightarrow> real" where
  "kahan_sum p = (case p of [] \<Rightarrow> 0 | d # ds \<Rightarrow> kahan_loop d 0 ds)"

fun cumsum_from :: "real \<Rightarrow> real list \<Rightarrow> real list" where
  "cumsum_from acc [] = []"
| "cumsum_from acc (d # ds) = fadd acc d # cumsum_from (fadd acc d) ds"

definition np_cumsum :: "real list \<Rightarrow> real list" where
  "np_cumsum p = (case p of [] \<Rightarrow> [] | d # ds \<Rightarrow> d # cumsum_from d ds)"

definition np_choice_p :: "nat \<Rightarrow> real list \<Rightarrow> real \<Rightarrow> error + nat" where
  "np_choice_p a p u =
     (if a = 0 then Inl (ValueError ''a must be greater than 0'')
      else if length p \<noteq> a then Inl (ValueError ''a and p must have same size'')
      else if list_ex (\<lambda>x. x < 0) p then
        Inl (ValueError ''probabilities are not non-negative'')
      else if \<bar>fsub (kahan_sum p) 1\<bar> > 1 / 2 ^ 26 then
        Inl (ValueError ''probabilities do not sum to 1'')
      else (let cdf = np_cumsum p;
                cdf = map (\<lambda>c. fdiv c (last cdf)) cdf
            in Inr (length (filter (\<lambda>c. c \<le> u) cdf))))"

text \<open>
  \<^verbatim>\<open>random.sample(population, k)\<close> when \<open>k\<close> is not an integer but a one-element integer
  array, as \<^verbatim>\<open>np.random.choice(...) + 1\<close> is. The test \<^verbatim>\<open>not 0 <= k <= n\<close> reads the
  truth value of the one-element comparison, so a \<open>k\<close> above the size of the population
  raises the \<^verbatim>\<open>ValueError\<close>. Otherwise \<^verbatim>\<open>result = [None] * k\<close> is evaluated by numpy,
  entry by entry, as the product of \<^verbatim>\<open>None\<close> and an integer: a \<^verbatim>\<open>TypeError\<close>. The call
  never returns a sample.
\<close>

definition random_sample_ndarray :: "'a list \<Rightarrow> nat \<Rightarrow> error + ('a list \<times> rng)" where
  "random_sample_ndarray population k =
     (if k > length population then Inl (ValueError ''Sample larger than population'')
      else Inl (TypeError ''unsupported operand type(s) for *: NoneType and int''))"

subsection \<open>State proposals\<close>

text \<open>
  Of the drive, the proposals read the list \<^verbatim>\<open>drive.titrationStates\<close> (the current
  state index of every group) and call \<^verbatim>\<open>drive.get_num_titration_states\<close>, a
  method of the driver module, outside the two modules verified here: it is the
  parameter \<open>num_states\<close>. Group indices are natural numbers.
\<close>

text \<open>
  The loop \<^verbatim>\<open>for titration_group_index in titration_group_indices\<close>: a state is drawn
  for each selected group and stored in the copy of the state list; storing at an index
  outside the list raises an \<^verbatim>\<open>IndexError\<close>.
\<close>

fun select_new_states ::
  "(nat \<Rightarrow> nat) \<Rightarrow> nat list \<Rightarrow> nat list \<Rightarrow> rng \<Rightarrow> error + (nat list \<times> rng)" where
  "select_new_states num_states [] final_titration_states g = Inr (final_titration_states, g)"
| "select_new_states num_states (i # is) final_titration_states g =
     (case random_choice_range (num_states i) g of
        Inl e \<Rightarrow> Inl e
      | Inr (titration_state_index, g') \<Rightarrow>
          if i < length final_titration_states then
            select_new_states num_states is
              (final_titration_states[i := titration_state_index]) g'
          else Inl IndexError)"

text \<open>
  A proposal is the triple of the final states, the indices of the changing groups and
  the logarithm of the proposal ratio.
\<close>

type_synonym proposal = "nat list \<times> nat list \<times> real"

text \<open>
  The three \<^verbatim>\<open>propose_states\<close> methods end in the same lines: \<^verbatim>\<open>ndraw\<close> groups are
  sampled from the pool, a state is drawn for each, and the proposal is returned with
  the log ratio \<open>0.0\<close>.
\<close>

definition propose_with ::
  "nat \<Rightarrow> (nat \<Rightarrow> nat) \<Rightarrow> nat list \<Rightarrow> nat list \<Rightarrow> rng \<Rightarrow> error + proposal" where
  "propose_with ndraw num_states titrationStates residue_pool_indices g =
     (case random_sample residue_pool_indices ndraw g of
        Inl e \<Rightarrow> Inl e
      | Inr (titration_group_indices, g') \<Rightarrow>
          (case select_new_states num_states titration_group_indices titrationStates g' of
             Inl e \<Rightarrow> Inl e
           | Inr (final_titration_states, _) \<Rightarrow>
               Inr (final_titration_states, titration_group_indices, 0)))"

text \<open>\<^verbatim>\<open>UniformProposal.propose_states\<close>: always one group.\<close>

definition uniform_propose_states ::
  "(nat \<Rightarrow> nat) \<Rightarrow> nat list \<Rightarrow> nat list \<Rightarrow> rng \<Rightarrow> error + proposal" where
  "uniform_propose_states num_states titrationStates residue_pool_indices g =
     propose_with 1 num_states titrationStates residue_pool_indices g"

text \<open>
  \<^verbatim>\<open>DoubleProposal.propose_states\<close>: \<open>u\<close> is the value of \<^verbatim>\<open>random.random()\<close>, read
  only when the pool has more than one residue.
\<close>

definition double_propose_states ::
  "real \<Rightarrow> real \<Rightarrow> (nat \<Rightarrow> nat) \<Rightarrow> nat list \<Rightarrow> nat list \<Rightarrow> rng \<Rightarrow> error + proposal" where
  "double_propose_states simultaneous_proposal_probability u num_states titrationStates
       residue_pool_indices g =
     (let ndraw = (if length residue_pool_indices > 1 \<and> u < simultaneous_proposal_probability
                   then 2 else 1)
      in propose_with ndraw num_states titrationStates residue_pool_indices g)"

text \<open>
  \<^verbatim>\<open>CategoricalProposal\<close>: the constructor compares \<^verbatim>\<open>sum(p_N)\<close>, the binary64 sum
  that Python computes from the left, with \<^verbatim>\<open>1.0\<close> by \<^verbatim>\<open>==\<close>. The entries of \<open>p_N\<close>
  are binary64 numbers.
\<close>

record categorical_proposal =
  p_N :: "real list"
  N :: nat

definition categorical_init :: "real list \<Rightarrow> error + categorical_proposal" where
  "categorical_init p =
     (if \<not> (sum64 p = 1) then Inl (ValueError ''p_N should sum to 1.0'')
      else Inr \<lparr>p_N = p, N = length p\<rparr>)"

text \<open>
  \<^verbatim>\<open>CategoricalProposal.propose_states\<close>: \<open>u\<close> is the uniform variate behind
  \<^verbatim>\<open>np.random.choice(self.N, 1, p=self.p_N)\<close>. The result of that call is an array of
  one element, and so is \<^verbatim>\<open>ndraw\<close>: it is passed to \<^verbatim>\<open>random.sample\<close> as it is, and
  nothing compares it with the size of the pool before. The lines after
  \<^verbatim>\<open>random.sample\<close> are those of the other two strategies.
\<close>

definition categorical_propose_states ::
  "categorical_proposal \<Rightarrow> real \<Rightarrow> (nat \<Rightarrow> nat) \<Rightarrow> nat list \<Rightarrow> nat list \<Rightarrow> rng
     \<Rightarrow> error + proposal" where
  "categorical_propose_states self u num_states titrationStates residue_pool_indices g =
     (case np_choice_p (N self) (p_N self) u of
        Inl e \<Rightarrow> Inl e
      | Inr c \<Rightarrow>
          (let ndraw = c + 1
           in case random_sample_ndarray residue_pool_indices ndraw of
                Inl e \<Rightarrow> Inl e
              | Inr (titration_group_indices, g') \<Rightarrow>
                  (case select_new_states num_states titration_group_indices
                          titrationStates g' of
                     Inl e \<Rightarrow> Inl e
                   | Inr (final_titration_states, _) \<Rightarrow>
                       Inr (final_titration_states, titration_group_indices, 0))))"

text \<open>
  The reading of the constructor's check with a tolerance: the sum that Python computes
  is within \<open>tol\<close> of 1.
\<close>

definition sums_to_one_within :: "real \<Rightarrow> real list \<Rightarrow> bool" where
  "sums_to_one_within tol p \<longleftrightarrow> \<bar>sum64 p - 1\<bar> \<le> tol"

subsection \<open>\<^verbatim>\<open>OneDirectionChargeProposal.select_ions\<close> and \<^verbatim>\<open>propose_swaps\<close>\<close>

record one_direction_charge_proposal =
  cation_weight :: real
  anion_weight :: real
  err_on_depletion :: bool

definition one_direction_init :: "real \<Rightarrow> bool \<Rightarrow> error + one_direction_charge_proposal" where
  "one_direction_init cation_coefficient err =
     (if \<not> (0 \<le> cation_coefficient \<and> cation_coefficient \<le> 1) then
        Inl (ValueError ''The cation coefficient should be between 0 and 1.'')
      else Inr \<lparr>cation_weight = cation_coefficient,
                anion_weight = 1 - cation_coefficient,
                err_on_depletion = err\<rparr>)"

text \<open>
  What \<^verbatim>\<open>select_ions\<close> accumulates: the running \<^verbatim>\<open>log_ratio\<close>, the two lists it
  appends to, and the random generator.
\<close>

record ion_selection =
  log_ratio :: real
  saltswap_residue_indices :: "nat list"
  saltswap_state_pairs :: "(nat \<times> nat) list"
  generator :: rng

text \<open>\<^verbatim>\<open>np.where(drive.swapper.stateVector == kind)[0]\<close>\<close>

definition np_where_eq :: "nat list \<Rightarrow> nat \<Rightarrow> nat list" where
  "np_where_eq stateVector kind =
     filter (\<lambda>i. stateVector ! i = kind) [0..<length stateVector]"

text \<open>
  The four blocks of \<^verbatim>\<open>select_ions\<close> have one shape: \<open>m\<close> entities are drawn from
  \<open>pool\<close> and appended with their pair of kinds, then
  \<^verbatim>\<open>log_p_forward = -np.log(comb(n_forward, m, exact=True))\<close>,
  \<^verbatim>\<open>log_p_reverse = -np.log(comb(n_reverse + m, m, exact=True))\<close>,
  \<^verbatim>\<open>log_ratio += (log_p_reverse - log_p_forward)\<close> and \<^verbatim>\<open>log_ratio -= work\<close>.
  The arguments \<open>n_forward\<close> and \<open>n_reverse\<close> are the sizes that each block of the source
  passes to \<^verbatim>\<open>comb\<close>.
\<close>

definition swap_block ::
  "nat list \<Rightarrow> int \<Rightarrow> nat \<times> nat \<Rightarrow> nat \<Rightarrow> nat \<Rightarrow> real \<Rightarrow> ion_selection
     \<Rightarrow> error + ion_selection" where
  "swap_block pool m pair n_forward n_reverse work acc =
     (case np_random_choice pool (nat m) (generator acc) of
        Inl e \<Rightarrow> Inl e
      | Inr (chosen, g') \<Rightarrow>
          (let log_p_forward = - ln (real (n_forward choose nat m));
               log_p_reverse = - ln (real ((n_reverse + nat m) choose nat m))
           in Inr \<lparr>log_ratio = log_ratio acc + (log_p_reverse - log_p_forward) - work,
                   saltswap_residue_indices = saltswap_residue_indices acc @ chosen,
                   saltswap_state_pairs = saltswap_state_pairs acc @ map (\<lambda>_. pair) chosen,
                   generator = g'\<rparr>))"

definition select_ions ::
  "one_direction_charge_proposal \<Rightarrow> real \<Rightarrow> nat list \<Rightarrow> ion_selection \<Rightarrow> swaps
     \<Rightarrow> error + ion_selection" where
  "select_ions self chem_potential stateVector acc sw =
     (let all_waters = np_where_eq stateVector 0;
          all_cations = np_where_eq stateVector 1;
          all_anions = np_where_eq stateVector 2
      in
      case (if water_to_cation sw > 0 then
              swap_block all_waters (water_to_cation sw) (0, 1)
                (length all_waters) (length all_cations)
                (chem_potential * cation_weight self) acc
            else Inr acc) of
        Inl e \<Rightarrow> Inl e
      | Inr acc1 \<Rightarrow>
      case (if water_to_anion sw > 0 then
              swap_block all_waters (water_to_anion sw) (0, 2)
                (length all_waters) (length all_anions)
                (chem_potential * anion_weight self) acc1
            else Inr acc1) of
        Inl e \<Rightarrow> Inl e
      | Inr acc2 \<Rightarrow>
      case (if cation_to_water sw > 0 then
              swap_block all_cations (cation_to_water sw) (1, 0)
                (length all_cations) (length all_cations)
                (- chem_potential * cation_weight self) acc2
            else Inr acc2) of
        Inl e \<Rightarrow> Inl e
      | Inr acc3 \<Rightarrow>
      (if anion_to_water sw > 0 then
         swap_block all_anions (anion_to_water sw) (2, 0)
           (length all_anions) (length all_waters)
           (- chem_potential * anion_weight self) acc3
       else Inr acc3))"

text \<open>
  \<^verbatim>\<open>propose_swaps\<close>; \<open>delta_chem\<close> is \<^verbatim>\<open>drive.swapper.delta_chem\<close> as a dimensionless
  number (the reduction of a quantity with units is outside the model).
\<close>

definition propose_swaps ::
  "one_direction_charge_proposal \<Rightarrow> real \<Rightarrow> nat list \<Rightarrow> int \<Rightarrow> int \<Rightarrow> rng
     \<Rightarrow> error + ion_selection" where
  "propose_swaps self delta_chem stateVector initial final_charge g =
     (let net_charge_difference = final_charge - initial;
          start = \<lparr>log_ratio = 0, saltswap_residue_indices = [],
                   saltswap_state_pairs = [], generator = g\<rparr>
      in if net_charge_difference \<noteq> 0 then
           (case select_swaps_chenroux initial final_charge of
              Inl e \<Rightarrow> Inl e
            | Inr sw \<Rightarrow>
                (case validate_swaps sw of
                   Inl e \<Rightarrow> Inl e
                 | Inr _ \<Rightarrow> select_ions self delta_chem stateVector start sw))
         else Inr start)"

text \<open>
  The selection term of one conversion type in the words of the specification: with \<open>m\<close>
  conversions from a pool of \<open>n_from\<close> entities into a kind that has \<open>n_to\<close> entities,
  \<open>log P_forward = - log C(n_from, m)\<close> and \<open>log P_reverse = - log C(n_to + m, m)\<close>.
\<close>

definition spec_selection_log_ratio :: "nat \<Rightarrow> nat \<Rightarrow> nat \<Rightarrow> real" where
  "spec_selection_log_ratio n_from n_to m =
     (- ln (real ((n_to + m) choose m))) - (- ln (real (n_from choose m)))"

section \<open>Calibration: \<^verbatim>\<open>calibration.py\<close>\<close>

subsection \<open>The state of the SAMS engine\<close>

text \<open>
  The engine owns \<^verbatim>\<open>n_adaptations\<close> and \<^verbatim>\<open>state_counts\<close> and mutates, through its
  reference to the driver, the entries \<^verbatim>\<open>g_k\<close> of
  \<^verbatim>\<open>driver.titrationGroups[group]['titration_states'][state]\<close>. A function that mutates
  returns its result, or the exception it raised, together with the state it leaves
  behind. The driver's own methods lie outside the two modules verified here: the value of
  \<^verbatim>\<open>driver._get_titration_state(group_index)\<close> is the parameter \<open>current_state\<close> and
  the value of \<^verbatim>\<open>driver._get_reduced_potentials(group_index)\<close> is the parameter
  \<open>ub_j\<close>. Group indices, state indices and \<^verbatim>\<open>end_of_burnin\<close> are natural numbers.
\<close>

record titration_state =
  g_k :: real
  target_weight :: real

record titration_group =
  titration_states :: "titration_state list"

record sams =
  n_adaptations :: nat
  state_counts :: "real list"
  titrationGroups :: "titration_group list"

subsection \<open>numpy arithmetic on vectors\<close>

text \<open>
  A binary operation on two vectors broadcasts a vector of length 1; other lengths that
  differ raise a \<^verbatim>\<open>ValueError\<close>. An operation in place keeps the shape of its left
  operand.
\<close>

definition np_binary ::
  "(real \<Rightarrow> real \<Rightarrow> real) \<Rightarrow> real list \<Rightarrow> real list \<Rightarrow> error + real list" where
  "np_binary f xs ys =
     (if length xs = length ys then Inr (map2 f xs ys)
      else if length xs = 1 then Inr (map (f (hd xs)) ys)
      else if length ys = 1 then Inr (map (\<lambda>x. f x (hd ys)) xs)
      else Inl (ValueError ''operands could not be broadcast together''))"

definition np_inplace ::
  "(real \<Rightarrow> real \<Rightarrow> real) \<Rightarrow> real list \<Rightarrow> real list \<Rightarrow> error + real list" where
  "np_inplace f xs ys =
     (if length xs = length ys then Inr (map2 f xs ys)
      else if length ys = 1 then Inr (map (\<lambda>x. f x (hd ys)) xs)
      else Inl (ValueError ''non-broadcastable output operand''))"

text \<open>\<^verbatim>\<open>scipy.misc.logsumexp\<close> takes the maximum first, which raises on an empty vector.\<close>

definition logsumexp :: "real list \<Rightarrow> error + real" where
  "logsumexp xs =
     (if xs = [] then Inl (ValueError ''zero-size array to reduction operation'')
      else Inr (ln (sum_list (map exp xs))))"

subsection \<open>Accessors\<close>

definition get_gk :: "sams \<Rightarrow> nat \<Rightarrow> error + real list" where
  "get_gk self group_index =
     (if group_index < length (titrationGroups self) then
        Inr (map g_k (titration_states (titrationGroups self ! group_index)))
      else Inl IndexError)"

definition get_target_weights :: "sams \<Rightarrow> nat \<Rightarrow> error + real list" where
  "get_target_weights self group_index =
     (if group_index < length (titrationGroups self) then
        Inr (map target_weight (titration_states (titrationGroups self ! group_index)))
      else Inl IndexError)"

text \<open>
  \<^verbatim>\<open>set_gk\<close>: the loop over \<^verbatim>\<open>enumerate(zetas)\<close> writes one state at a time and stops
  at the first index outside the list of states.
\<close>

fun set_gk_from :: "nat \<Rightarrow> real list \<Rightarrow> titration_state list \<Rightarrow> (error + unit) \<times> titration_state list" where
  "set_gk_from i [] sts = (Inr (), sts)"
| "set_gk_from i (titr_state_zeta # zetas) sts =
     (if i < length sts then
        set_gk_from (Suc i) zetas (sts[i := (sts ! i)\<lparr>g_k := titr_state_zeta\<rparr>])
      else (Inl IndexError, sts))"

definition set_gk :: "real list \<Rightarrow> nat \<Rightarrow> sams \<Rightarrow> (error + unit) \<times> sams" where
  "set_gk zetas group_index self =
     (if group_index < length (titrationGroups self) then
        (let grp = titrationGroups self ! group_index;
             (r, sts) = set_gk_from 0 zetas (titration_states grp)
         in (r, self\<lparr>titrationGroups :=
                      (titrationGroups self)[group_index := grp\<lparr>titration_states := sts\<rparr>]\<rparr>))
      else (if zetas = [] then Inr () else Inl IndexError, self))"

subsection \<open>\<^verbatim>\<open>_gain_factor\<close>\<close>

text \<open>
  The diagonal of the gain matrix. \<^verbatim>\<open>pow\<close> of an integer and a float is \<open>powr\<close>; a
  division of Python floats by zero raises. The message of the first error starts with
  the Greek letter beta in the source.
\<close>

fun gain_loop :: "string \<Rightarrow> real \<Rightarrow> nat \<Rightarrow> nat \<Rightarrow> real list \<Rightarrow> error + real list" where
  "gain_loop stage b n end_of_burnin [] = Inr []"
| "gain_loop stage b n end_of_burnin (pi_j # rest) =
     (case
        (if stage = ''burn-in'' then
           (if real n powr b = 0 then Inl ZeroDivisionError
            else Inr (min pi_j (1 / (real n powr b))))
         else if stage = ''slow-gain'' then
           (if real_of_int (int n - int end_of_burnin) + real end_of_burnin powr b = 0
            then Inl ZeroDivisionError
            else Inr (min pi_j
                   (1 / (real_of_int (int n - int end_of_burnin) + real end_of_burnin powr b))))
         else Inl (ValueError
           ''Invalid SAMS adaptation stage specified %s. Choose 'burn-in' or 'slow-gain'.''))
      of Inl e \<Rightarrow> Inl e
       | Inr gain_j \<Rightarrow>
           (case gain_loop stage b n end_of_burnin rest of
              Inl e \<Rightarrow> Inl e
            | Inr gains \<Rightarrow> Inr (gain_j # gains)))"

definition gain_factor :: "sams \<Rightarrow> real \<Rightarrow> string \<Rightarrow> nat \<Rightarrow> nat \<Rightarrow> error + real list" where
  "gain_factor self b stage end_of_burnin group_index =
     (if \<not> (1 / 2 \<le> b \<and> b \<le> 1) then
        Inl (ValueError ''beta needs to be between 1/2 and 1'')
      else
        (case get_target_weights self group_index of
           Inl e \<Rightarrow> Inl e
         | Inr pi_j \<Rightarrow> gain_loop stage b (n_adaptations self) end_of_burnin pi_j))"

subsection \<open>The two update schemes\<close>

text \<open>
  \<^verbatim>\<open>_binary_update\<close>. The target weights are Python floats, so \<^verbatim>\<open>1 / x['target_weight']\<close>
  raises on a weight of zero. \<^verbatim>\<open>np.dot\<close> of the diagonal gain matrix and the update
  vector is the product entry by entry. The histogram is touched only after
  \<^verbatim>\<open>_gain_factor\<close> has returned.
\<close>

definition binary_update ::
  "sams \<Rightarrow> nat \<Rightarrow> real \<Rightarrow> string \<Rightarrow> nat \<Rightarrow> nat \<Rightarrow> (error + real list) \<times> sams" where
  "binary_update self group_index b stage end_of_burnin current_state =
     (case get_target_weights self group_index of
        Inl e \<Rightarrow> (Inl e, self)
      | Inr pi_j \<Rightarrow>
        if list_ex (\<lambda>w. w = 0) pi_j then (Inl ZeroDivisionError, self)
        else if \<not> current_state < length pi_j then (Inl IndexError, self)
        else
          (let update = map (\<lambda>w. 1 / w) pi_j;
               delta = (map (\<lambda>_. 0) update)[current_state := 1];
               update = map2 (*) update delta
           in case gain_factor self b stage end_of_burnin group_index of
                Inl e \<Rightarrow> (Inl e, self)
              | Inr gain \<Rightarrow>
                  (let update = map2 (*) gain update
                   in if \<not> current_state < length (state_counts self)
                      then (Inl IndexError, self)
                      else (Inr update,
                            self\<lparr>state_counts := (state_counts self)
                              [current_state := state_counts self ! current_state
                                 + sqrt (real (n_adaptations self))]\<rparr>))))"

text \<open>
  \<^verbatim>\<open>_global_update\<close>. numpy's division and logarithm do not raise; the values they give
  at zero are outside the model.
\<close>

definition global_update ::
  "sams \<Rightarrow> real \<Rightarrow> string \<Rightarrow> nat \<Rightarrow> nat \<Rightarrow> real list \<Rightarrow> (error + real list) \<times> sams" where
  "global_update self b stage end_of_burnin group_index ub_j =
     (case get_gk self group_index of
        Inl e \<Rightarrow> (Inl e, self)
      | Inr zeta \<Rightarrow>
      case get_target_weights self group_index of
        Inl e \<Rightarrow> (Inl e, self)
      | Inr pi_j \<Rightarrow>
      let update = map (\<lambda>p. 1 / p) pi_j in
      case np_binary (-) (map2 (-) (map ln pi_j) zeta) ub_j of
        Inl e \<Rightarrow> (Inl e, self)
      | Inr log_w_j \<Rightarrow>
      case logsumexp log_w_j of
        Inl e \<Rightarrow> (Inl e, self)
      | Inr lse \<Rightarrow>
      let w_j = map (\<lambda>x. exp (x - lse)) log_w_j in
      case np_binary (/) w_j pi_j of
        Inl e \<Rightarrow> (Inl e, self)
      | Inr ratio \<Rightarrow>
      case np_inplace (*) update ratio of
        Inl e \<Rightarrow> (Inl e, self)
      | Inr update \<Rightarrow>
      case gain_factor self b stage end_of_burnin group_index of
        Inl e \<Rightarrow> (Inl e, self)
      | Inr gain \<Rightarrow>
      let update = map2 (*) gain update in
      case np_inplace (+) (state_counts self)
             (map (\<lambda>w. sqrt (real (n_adaptations self)) * w) w_j) of
        Inl e \<Rightarrow> (Inl e, self)
      | Inr counts \<Rightarrow> (Inr update, self\<lparr>state_counts := counts\<rparr>))"

text \<open>The dispatch on \<^verbatim>\<open>scheme\<close> in \<^verbatim>\<open>adapt_zetas\<close>.\<close>

definition scheme_update ::
  "string \<Rightarrow> sams \<Rightarrow> real \<Rightarrow> string \<Rightarrow> nat \<Rightarrow> nat \<Rightarrow> nat \<Rightarrow> real list
     \<Rightarrow> (error + real list) \<times> sams" where
  "scheme_update scheme self b stage end_of_burnin group_index current_state ub_j =
     (if scheme = ''binary'' then
        binary_update self group_index b stage end_of_burnin current_state
      else if scheme = ''global'' then
        global_update self b stage end_of_burnin group_index ub_j
      else (Inl (ValueError (''Unknown adaptation scheme: '' @ scheme @ ''!'')), self))"

subsection \<open>\<^verbatim>\<open>adapt_zetas\<close>\<close>

definition adapt_zetas ::
  "string \<Rightarrow> real \<Rightarrow> string \<Rightarrow> nat \<Rightarrow> nat \<Rightarrow> nat \<Rightarrow> real list \<Rightarrow> sams
     \<Rightarrow> (error + real) \<times> sams" where
  "adapt_zetas scheme b stage end_of_burnin group_index current_state ub_j self0 =
     (let self = self0\<lparr>n_adaptations := n_adaptations self0 + 1\<rparr> in
      case get_gk self group_index of
        Inl e \<Rightarrow> (Inl e, self)
      | Inr zeta \<Rightarrow>
      case scheme_update scheme self b stage end_of_burnin group_index current_state ub_j of
        (Inl e, self) \<Rightarrow> (Inl e, self)
      | (Inr update, self) \<Rightarrow>
      case np_inplace (+) zeta update of
        Inl e \<Rightarrow> (Inl e, self)
      | Inr zeta \<Rightarrow>
      case zeta of
        [] \<Rightarrow> (Inl IndexError, self)
      | zeta_0 # _ \<Rightarrow>
      let zeta_t = map (\<lambda>z. z - zeta_0) zeta in
      case set_gk zeta_t group_index self of
        (Inl e, self) \<Rightarrow> (Inl e, self)
      | (Inr _, self) \<Rightarrow>
      let Nk = map (\<lambda>c. c / sum_list (state_counts self)) (state_counts self) in
      case get_target_weights self group_index of
        Inl e \<Rightarrow> (Inl e, self)
      | Inr target \<Rightarrow>
      case np_binary (-) target Nk of
        Inl e \<Rightarrow> (Inl e, self)
      | Inr diff \<Rightarrow> (Inr (sum_list (map abs diff)), self))"

text \<open>
  The calls that get as far as \<^verbatim>\<open>_gain_factor\<close>: the group exists and the scheme is
  known; for the binary scheme no target weight is zero and the current state is a state
  of the group; for the global scheme the group has a state and the reduced potentials
  have the shape of the group's states (or are a single number).
\<close>

definition reaches_gain_factor :: "string \<Rightarrow> nat \<Rightarrow> nat \<Rightarrow> real list \<Rightarrow> sams \<Rightarrow> bool" where
  "reaches_gain_factor scheme group_index current_state ub_j self \<longleftrightarrow>
     group_index < length (titrationGroups self) \<and>
     (let sts = titration_states (titrationGroups self ! group_index) in
      if scheme = ''binary'' then
        \<not> list_ex (\<lambda>st. target_weight st = 0) sts \<and> current_state < length sts
      else scheme = ''global'' \<and> sts \<noteq> [] \<and>
           (length ub_j = length sts \<or> length ub_j = 1))"

subsection \<open>Population models\<close>

text \<open>\<^verbatim>\<open>Histidine\<close>: the constructor stores \<^verbatim>\<open>kd\<close> and \<^verbatim>\<open>ke\<close>.\<close>

definition pka_d :: real where "pka_d = 65 / 10"

definition pka_e :: real where "pka_e = 71 / 10"

record histidine =
  kd :: real
  ke :: real

definition histidine_init :: "real \<Rightarrow> histidine" where
  "histidine_init pH = \<lparr>kd = 10 powr (pH - pka_d), ke = 10 powr (pH - pka_e)\<rparr>"

definition hip_concentration :: "histidine \<Rightarrow> real" where
  "hip_concentration self = 1 / (ke self + kd self + 1)"

definition hie_concentration :: "histidine \<Rightarrow> real" where
  "hie_concentration self = ke self / (ke self + kd self + 1)"

definition hid_concentration :: "histidine \<Rightarrow> real" where
  "hid_concentration self = kd self / (ke self + kd self + 1)"

definition histidine_populations :: "histidine \<Rightarrow> real list" where
  "histidine_populations self =
     [hip_concentration self, hid_concentration self, hie_concentration self]"

text \<open>
  \<^verbatim>\<open>Aspartic4\<close> and its subclasses: each overrides the class attribute \<^verbatim>\<open>pka\<close>, and
  \<^verbatim>\<open>Lysine\<close> (with its subclasses \<^verbatim>\<open>Tyrosine\<close> and \<^verbatim>\<open>Cysteine\<close>) overrides
  \<^verbatim>\<open>populations\<close>. An instance stores its class and \<^verbatim>\<open>k\<close>.
\<close>

datatype acid_class = Aspartic4 | Glutamic4 | Lysine | Tyrosine | Cysteine

fun pka :: "acid_class \<Rightarrow> real" where
  "pka Aspartic4 = 4"
| "pka Glutamic4 = 44 / 10"
| "pka Lysine = 104 / 10"
| "pka Tyrosine = 96 / 10"
| "pka Cysteine = 85 / 10"

record acid =
  cls :: acid_class
  k :: real

definition acid_init :: "acid_class \<Rightarrow> real \<Rightarrow> acid" where
  "acid_init c pH = \<lparr>cls = c, k = 10 powr (pH - pka c)\<rparr>"

definition protonated_concentration :: "acid \<Rightarrow> real" where
  "protonated_concentration self = 1 / (k self + 1)"

definition deprotonated_concenration :: "acid \<Rightarrow> real" where
  "deprotonated_concenration self = k self / (k self + 1)"

fun populations_of :: "acid_class \<Rightarrow> acid \<Rightarrow> real list" where
  "populations_of Aspartic4 self =
     (let acid = protonated_concentration self / 4
      in [deprotonated_concenration self, acid, acid, acid, acid])"
| "populations_of Glutamic4 self =
     (let acid = protonated_concentration self / 4
      in [deprotonated_concenration self, acid, acid, acid, acid])"
| "populations_of _ self =
     [protonated_concentration self, deprotonated_concenration self]"

definition acid_populations :: "acid \<Rightarrow> real list" where
  "acid_populations self = populations_of (cls self) self"

text \<open>The six population models, each built for a pH and asked for its populations.\<close>

datatype population_model = Histidine | Acid acid_class

fun populations :: "population_model \<Rightarrow> real \<Rightarrow> real list" where
  "populations Histidine pH = histidine_populations (histidine_init pH)"
| "populations (Acid c) pH = acid_populations (acid_init c pH)"

subsection \<open>\<^verbatim>\<open>Aspartic4\<close> in binary64\<close>

text \<open>
  \<^verbatim>\<open>Aspartic4\<close> with its float operations written out, as a function of the stored
  float \<^verbatim>\<open>self.k\<close>.
\<close>

definition protonated_concentration64 :: "real \<Rightarrow> real" where
  "protonated_concentration64 kf = fdiv 1 (fadd kf 1)"

definition deprotonated_concenration64 :: "real \<Rightarrow> real" where
  "deprotonated_concenration64 kf = fdiv kf (fadd kf 1)"

definition aspartic4_populations64 :: "real \<Rightarrow> real list" where
  "aspartic4_populations64 kf =
     (let acid = fdiv (protonated_concentration64 kf) 4
      in [deprotonated_concenration64 kf, acid, acid, acid, acid])"

section \<open>Properties of binary64 rounding\<close>

text \<open>
  Rounding a number of a known binade: with \<open>2 ^ 52 \<le> \<bar>x\<bar> * 2 ^ m < 2 ^ 53\<close> the
  result is the multiple of \<open>1 / 2 ^ m\<close> nearest to \<open>x\<close>.
\<close>

lemma fl_normal:
  fixes x :: real and m :: nat
  assumes lo: "2 ^ 52 \<le> \<bar>x\<bar> * 2 ^ m" and hi: "\<bar>x\<bar> * 2 ^ m < 2 ^ 53"
  shows "fl x = of_int (round_half_even (x * 2 ^ m)) / 2 ^ m"
proof -
  from lo have x0: "x \<noteq> 0" by auto
  then have ax: "\<bar>x\<bar> > 0" by simp
  define y where "y = \<bar>x\<bar> * 2 ^ m"
  have y0: "y > 0" using ax by (simp add: y_def)
  have ly: "log 2 y = log 2 \<bar>x\<bar> + real m"
    using ax by (simp add: y_def log_mult log_nat_power)
  have "(2::real) powr 52 \<le> y" using lo by (simp add: y_def)
  then have l1: "52 \<le> log 2 y" using y0 by (simp add: le_log_iff)
  have "y < (2::real) powr 53" using hi by (simp add: y_def)
  then have l2: "log 2 y < 53" using y0 by (simp add: log_less_iff)
  from l1 l2 ly have "\<lfloor>log 2 \<bar>x\<bar>\<rfloor> = 52 - int m"
    by (intro floor_unique) auto
  then have e: "\<lfloor>log 2 \<bar>x\<bar>\<rfloor> - 52 = - int m" by simp
  have p: "(2::real) powr of_int (- int m) = 1 / 2 ^ m"
    by (simp add: powr_minus powr_realpow field_simps)
  show ?thesis
    using x0 by (simp add: fl_def e p Let_def del: of_int_minus)
qed


section \<open>Properties of the salt swaps\<close>

lemma chenroux_loop_unroll:
  "chenroux_loop f s =
     (case chenroux_iterate n f s of Inl e \<Rightarrow> Inl e | Inr s' \<Rightarrow> chenroux_loop f s')"
proof (induction n arbitrary: s)
  case 0
  show ?case by simp
next
  case (Suc n)
  show ?case
  proof (cases "\<bar>charge_to_counter s\<bar> > 0")
    case True
    show ?thesis
    proof (cases "chenroux_body f s")
      case (Inl e)
      with True show ?thesis by (simp add: chenroux_loop.simps [of f s])
    next
      case (Inr s')
      with True Suc [of s'] show ?thesis by (simp add: chenroux_loop.simps [of f s])
    qed
  next
    case False
    then show ?thesis by simp
  qed
qed

lemma chenroux_inv_init: "chenroux_inv i f (chenroux_init i f)"
  by (simp add: chenroux_inv_def chenroux_init_def net_charge_def)

lemma chenroux_body_inv:
  assumes "chenroux_inv i0 f s" and "\<bar>charge_to_counter s\<bar> > 0"
  shows "\<exists>s'. chenroux_body f s = Inr s' \<and> chenroux_inv i0 f s' \<and>
           \<bar>charge_to_counter s'\<bar> < \<bar>charge_to_counter s\<bar>"
  using assms
  by (auto simp: chenroux_inv_def chenroux_body_def Let_def net_charge_def)

lemma chenroux_iterate_inv:
  assumes "chenroux_inv i0 f s"
  shows "\<exists>s'. chenroux_iterate n f s = Inr s' \<and> chenroux_inv i0 f s'"
  using assms
proof (induction n arbitrary: s)
  case 0
  then show ?case by simp
next
  case (Suc n)
  show ?case
  proof (cases "\<bar>charge_to_counter s\<bar> > 0")
    case True
    from chenroux_body_inv [OF Suc.prems True] obtain s1
      where s1: "chenroux_body f s = Inr s1" "chenroux_inv i0 f s1" by blast
    from Suc.IH [OF s1(2)] s1(1) True show ?thesis by simp
  next
    case False
    with Suc.prems show ?thesis by simp
  qed
qed

lemma chenroux_loop_inv:
  assumes "chenroux_inv i0 f s"
  shows "\<exists>sw. chenroux_loop f s = Inr sw \<and> net_charge sw = - (f - i0)"
  using assms
proof (induction f s rule: chenroux_loop.induct)
  case (1 f s)
  show ?case
  proof (cases "\<bar>charge_to_counter s\<bar> > 0")
    case True
    from chenroux_body_inv [OF "1.prems" True] obtain s1
      where s1: "chenroux_body f s = Inr s1" "chenroux_inv i0 f s1" by blast
    from "1.IH" [OF True s1(1) s1(2)] s1(1) True show ?thesis
      by (simp add: chenroux_loop.simps [of f s])
  next
    case False
    then have "chenroux_loop f s = Inr (swaps_of s)"
      by (simp add: chenroux_loop.simps [of f s])
    moreover from False "1.prems" have "net_charge (swaps_of s) = - (f - i0)"
      by (simp add: chenroux_inv_def)
    ultimately show ?thesis by simp
  qed
qed

text \<open>
  Claim C1. For every pair of integers \<open>initial\<close>, \<open>final_charge\<close> the charge reduction
  returns a swap dictionary (it does not raise, and the loop function is total), and the
  net charge of the swaps is \<open>- (final_charge - initial)\<close>.
\<close>

theorem select_swaps_chenroux_offsets_charge:
  "\<exists>sw. select_swaps_chenroux initial final_charge = Inr sw \<and>
        net_charge sw = - (final_charge - initial)"
  unfolding select_swaps_chenroux_def
  by (rule chenroux_loop_inv [OF chenroux_inv_init])

text \<open>
  Claim C3. From the initial loop state of any pair of integer charges, the state reached
  after any number \<open>n\<close> of passes exists (no pass has raised), and if the loop condition
  still holds there, the next pass does not raise and leaves a residual
  \<^verbatim>\<open>charge_to_counter\<close> of strictly smaller absolute value. Hence the function never
  returns the error of the final \<^verbatim>\<open>else\<close> branch.
\<close>

theorem chenroux_residual_decreases:
  "(\<exists>s. chenroux_iterate n final_charge (chenroux_init initial final_charge) = Inr s \<and>
        (\<bar>charge_to_counter s\<bar> > 0 \<longrightarrow>
           (\<exists>s'. chenroux_body final_charge s = Inr s' \<and>
                 \<bar>charge_to_counter s'\<bar> < \<bar>charge_to_counter s\<bar>))) \<and>
   (\<forall>e. select_swaps_chenroux initial final_charge \<noteq> Inl e)"
proof
  from chenroux_iterate_inv [OF chenroux_inv_init, of n final_charge initial] obtain s
    where s: "chenroux_iterate n final_charge (chenroux_init initial final_charge) = Inr s"
      "chenroux_inv initial final_charge s" by blast
  have "\<bar>charge_to_counter s\<bar> > 0 \<longrightarrow>
      (\<exists>s'. chenroux_body final_charge s = Inr s' \<and>
            \<bar>charge_to_counter s'\<bar> < \<bar>charge_to_counter s\<bar>)"
    using chenroux_body_inv [OF s(2)] by blast
  with s(1) show "\<exists>s. chenroux_iterate n final_charge (chenroux_init initial final_charge) = Inr s \<and>
        (\<bar>charge_to_counter s\<bar> > 0 \<longrightarrow>
           (\<exists>s'. chenroux_body final_charge s = Inr s' \<and>
                 \<bar>charge_to_counter s'\<bar> < \<bar>charge_to_counter s\<bar>))"
    by blast
next
  from chenroux_loop_inv [OF chenroux_inv_init, of final_charge initial]
  show "\<forall>e. select_swaps_chenroux initial final_charge \<noteq> Inl e"
    by (auto simp: select_swaps_chenroux_def)
qed

theorem chenroux_residual_decreases_witness:
  "chenroux_iterate (Suc 0) (- 1) (chenroux_init 1 (- 1)) =
     Inr \<lparr>swaps_of = \<lparr>water_to_cation = 1, water_to_anion = 0,
                       cation_to_water = 0, anion_to_water = 0\<rparr>,
          charge_to_counter = - 1, initial_charge = 0\<rparr> \<and>
   \<bar>charge_to_counter \<lparr>swaps_of = \<lparr>water_to_cation = 1, water_to_anion = 0,
                       cation_to_water = 0, anion_to_water = 0\<rparr>,
          charge_to_counter = - 1, initial_charge = 0\<rparr>\<bar> > 0 \<and>
   chenroux_body (- 1) \<lparr>swaps_of = \<lparr>water_to_cation = 1, water_to_anion = 0,
                       cation_to_water = 0, anion_to_water = 0\<rparr>,
          charge_to_counter = - 1, initial_charge = 0\<rparr> =
     Inr \<lparr>swaps_of = \<lparr>water_to_cation = 1, water_to_anion = 0,
                       cation_to_water = 0, anion_to_water = 1\<rparr>,
          charge_to_counter = 0, initial_charge = - 1\<rparr> \<and>
   (\<forall>e. select_swaps_chenroux 1 (- 1) \<noteq> Inl e)"
  using chenroux_residual_decreases [of "Suc 0" "- 1" 1]
  by (simp add: chenroux_init_def chenroux_body_def)

text \<open>
  Claim C4. \<^verbatim>\<open>_validate_swaps\<close> raises its \<^verbatim>\<open>RuntimeError\<close> for every swap dictionary
  in which waters become cations and anions at once, or cations and anions become water
  at once, or one species is both added and removed; and it returns without raising for
  every dictionary with at most one nonzero count.
\<close>

theorem validate_swaps_conflicts:
  "((water_to_cation sw \<noteq> 0 \<and> water_to_anion sw \<noteq> 0) \<or>
    (cation_to_water sw \<noteq> 0 \<and> anion_to_water sw \<noteq> 0) \<or>
    (water_to_cation sw \<noteq> 0 \<and> cation_to_water sw \<noteq> 0) \<or>
    (water_to_anion sw \<noteq> 0 \<and> anion_to_water sw \<noteq> 0)
      \<longrightarrow> (\<exists>msg. validate_swaps sw = Inl (RuntimeError msg))) \<and>
   (nonzero_counts sw \<le> 1 \<longrightarrow> validate_swaps sw = Inr ())"
  by (auto simp: validate_swaps_def nonzero_counts_def split: if_splits)

theorem validate_swaps_conflicts_witness:
  "(\<exists>msg. validate_swaps \<lparr>water_to_cation = 1, water_to_anion = 2,
                          cation_to_water = 0, anion_to_water = 0\<rparr> = Inl (RuntimeError msg)) \<and>
   nonzero_counts \<lparr>water_to_cation = 0, water_to_anion = 0,
                   cation_to_water = 3, anion_to_water = 0\<rparr> \<le> 1 \<and>
   validate_swaps \<lparr>water_to_cation = 0, water_to_anion = 0,
                   cation_to_water = 3, anion_to_water = 0\<rparr> = Inr ()"
  using validate_swaps_conflicts [of "\<lparr>water_to_cation = 1, water_to_anion = 2,
                          cation_to_water = 0, anion_to_water = 0\<rparr>"]
    validate_swaps_conflicts [of "\<lparr>water_to_cation = 0, water_to_anion = 0,
                   cation_to_water = 3, anion_to_water = 0\<rparr>"]
  by (simp add: nonzero_counts_def)

subsection \<open>The selection term of \<^verbatim>\<open>select_ions\<close>\<close>

lemma swap_block_log_ratio:
  assumes "swap_block pool m pair n_forward n_reverse work acc = Inr acc'"
  shows "log_ratio acc' =
           log_ratio acc + spec_selection_log_ratio n_forward n_reverse (nat m) - work"
proof (cases "np_random_choice pool (nat m) (generator acc)")
  case (Inl e)
  with assms show ?thesis by (simp add: swap_block_def)
next
  case (Inr r)
  obtain chosen g' where "r = (chosen, g')" by (cases r)
  with Inr assms show ?thesis
    by (auto simp: swap_block_def spec_selection_log_ratio_def Let_def)
qed

text \<open>
  With one active conversion type, \<^verbatim>\<open>select_ions\<close> is the block of that type; the
  arguments show the pools that enter the two binomials.
\<close>

lemma select_ions_single_type:
  "water_to_cation sw > 0 \<Longrightarrow> water_to_anion sw = 0 \<Longrightarrow> cation_to_water sw = 0 \<Longrightarrow>
   anion_to_water sw = 0 \<Longrightarrow>
   select_ions self chem sv acc sw =
     swap_block (np_where_eq sv 0) (water_to_cation sw) (0, 1)
       (length (np_where_eq sv 0)) (length (np_where_eq sv 1))
       (chem * cation_weight self) acc"
  "water_to_cation sw = 0 \<Longrightarrow> water_to_anion sw > 0 \<Longrightarrow> cation_to_water sw = 0 \<Longrightarrow>
   anion_to_water sw = 0 \<Longrightarrow>
   select_ions self chem sv acc sw =
     swap_block (np_where_eq sv 0) (water_to_anion sw) (0, 2)
       (length (np_where_eq sv 0)) (length (np_where_eq sv 2))
       (chem * anion_weight self) acc"
  "water_to_cation sw = 0 \<Longrightarrow> water_to_anion sw = 0 \<Longrightarrow> cation_to_water sw > 0 \<Longrightarrow>
   anion_to_water sw = 0 \<Longrightarrow>
   select_ions self chem sv acc sw =
     swap_block (np_where_eq sv 1) (cation_to_water sw) (1, 0)
       (length (np_where_eq sv 1)) (length (np_where_eq sv 1))
       (- chem * cation_weight self) acc"
  "water_to_cation sw = 0 \<Longrightarrow> water_to_anion sw = 0 \<Longrightarrow> cation_to_water sw = 0 \<Longrightarrow>
   anion_to_water sw > 0 \<Longrightarrow>
   select_ions self chem sv acc sw =
     swap_block (np_where_eq sv 2) (anion_to_water sw) (2, 0)
       (length (np_where_eq sv 2)) (length (np_where_eq sv 0))
       (- chem * anion_weight self) acc"
  by (simp_all add: select_ions_def Let_def split: sum.splits)

lemma chenroux_0_1:
  "select_swaps_chenroux 0 1 = Inr \<lparr>water_to_cation = 0, water_to_anion = 0,
                                    cation_to_water = 1, anion_to_water = 0\<rparr>"
  by (simp add: select_swaps_chenroux_def chenroux_init_def chenroux_loop.simps
      chenroux_body_def)

lemma where_example:
  "np_where_eq [0, 0, 0, 1, 2] 0 = [0, 1, 2]"
  "np_where_eq [0, 0, 0, 1, 2] 1 = [3]"
  "np_where_eq [0, 0, 0, 1, 2] 2 = [4]"
  by (simp_all add: np_where_eq_def upt_rec)

lemma where_example_Suc:
  "np_where_eq [0, 0, 0, Suc 0, 2] 0 = [0, Suc 0, 2]"
  "np_where_eq [0, 0, 0, Suc 0, 2] (Suc 0) = [3]"
  "np_where_eq [0, 0, 0, Suc 0, 2] 2 = [4]"
  using where_example by simp_all

text \<open>
  Claim C2. The selection term added to \<^verbatim>\<open>log_ratio\<close> should be
  \<open>log P_reverse - log P_forward\<close> with the reverse probability taken over the pool of the
  kind converted to. For \<^verbatim>\<open>cation_to_water\<close> the source passes the number of cations,
  not of waters, to the reverse binomial. A residue going from charge 0 to charge 1 in a
  box of three waters, one cation and one anion turns one cation into water: the call
  returns \<open>- ln 2\<close>, from \<open>C(1 + 1, 1)\<close>, where the pool of waters gives \<open>- ln 4\<close>, from
  \<open>C(3 + 1, 1)\<close> (chemical potential 0, so that the work term vanishes).
\<close>

theorem select_ions_cation_to_water_reverse_pool:
  "propose_swaps \<lparr>cation_weight = 1 / 2, anion_weight = 1 / 2, err_on_depletion = True\<rparr>
      0 [0, 0, 0, 1, 2] 0 1 [] =
     Inr \<lparr>log_ratio = - ln 2, saltswap_residue_indices = [3],
          saltswap_state_pairs = [(1, 0)], generator = []\<rparr> \<and>
   spec_selection_log_ratio 1 3 1 = - ln 4 \<and>
   - ln 2 \<noteq> - ln (4 :: real)"
  by (simp add: propose_swaps_def chenroux_0_1 validate_swaps_def select_ions_def
      where_example_Suc Let_def swap_block_def np_random_choice_def
      spec_selection_log_ratio_def)

section \<open>Properties of the state proposals\<close>

subsection \<open>The constructor of \<^verbatim>\<open>CategoricalProposal\<close>\<close>

text \<open>Sums that Python computes for some vectors of binary64 numbers.\<close>

lemma sum64_halves: "sum64 [1 / 2, 1 / 2] = 1"
proof -
  have a: "fadd 0 (1 / 2) = 1 / 2"
    by (simp add: fadd_def fl_normal [where m = 53] round_half_even_def)
  have b: "fadd (1 / 2) (1 / 2) = 1"
    by (simp add: fadd_def fl_normal [where m = 52] round_half_even_def)
  show ?thesis by (simp only: sum64_def foldl.simps a b)
qed

lemma sum64_three_quarters: "sum64 [1 / 4, 1 / 2] = 3 / 4"
proof -
  have a: "fadd 0 (1 / 4) = 1 / 4"
    by (simp add: fadd_def fl_normal [where m = 54] round_half_even_def)
  have b: "fadd (1 / 4) (1 / 2) = 3 / 4"
    by (simp add: fadd_def fl_normal [where m = 53] round_half_even_def)
  show ?thesis by (simp only: sum64_def foldl.simps a b)
qed

lemma sum64_one_ulp_above: "sum64 [1 / 2, 1 / 2 + 1 / 2 ^ 52] = 1 + 1 / 2 ^ 52"
proof -
  have a: "fadd 0 (1 / 2) = 1 / 2"
    by (simp add: fadd_def fl_normal [where m = 53] round_half_even_def)
  have b: "fadd (1 / 2) (1 / 2 + 1 / 2 ^ 52) = 1 + 1 / 2 ^ 52"
    by (simp add: fadd_def fl_normal [where m = 52] round_half_even_def)
  show ?thesis by (simp only: sum64_def foldl.simps a b)
qed

text \<open>The exact sum is \<open>1 + 2 ^ -53\<close>; the tie is rounded to the even neighbour, 1.\<close>

lemma sum64_rounds_to_one: "sum64 [1 / 2, 1 / 2 + 1 / 2 ^ 53] = 1"
proof -
  have a: "fadd 0 (1 / 2) = 1 / 2"
    by (simp add: fadd_def fl_normal [where m = 53] round_half_even_def)
  have b: "fadd (1 / 2) (1 / 2 + 1 / 2 ^ 53) = 1"
    by (simp add: fadd_def fl_normal [where m = 52] round_half_even_def)
  show ?thesis by (simp only: sum64_def foldl.simps a b)
qed

text \<open>
  The exact sum is 1; the two small entries are each absorbed by \<open>0.5\<close>, and Python's sum
  is the float just below 1.
\<close>

lemma sum64_absorbs: "sum64 [1 / 2, 1 / 2 ^ 54, 1 / 2 ^ 54, 1 / 2 - 1 / 2 ^ 53] = 1 - 1 / 2 ^ 53"
proof -
  have a: "fadd 0 (1 / 2) = 1 / 2"
    by (simp add: fadd_def fl_normal [where m = 53] round_half_even_def)
  have b: "fadd (1 / 2) (1 / 2 ^ 54) = 1 / 2"
    by (simp add: fadd_def fl_normal [where m = 53] round_half_even_def)
  have c: "fadd (1 / 2) (1 / 2 - 1 / 2 ^ 53) = 1 - 1 / 2 ^ 53"
    by (simp add: fadd_def fl_normal [where m = 53] round_half_even_def)
  show ?thesis by (simp only: sum64_def foldl.simps a b c)
qed

text \<open>
  The constructor has no tolerance: a vector whose sum is one unit in the last place
  above 1, far within \<open>10 ^ -9\<close> of 1, is refused.
\<close>

theorem categorical_init_no_tolerance:
  "sums_to_one_within (1 / 10 ^ 9) [1 / 2, 1 / 2 + 1 / 2 ^ 52] \<and>
   categorical_init [1 / 2, 1 / 2 + 1 / 2 ^ 52] = Inl (ValueError ''p_N should sum to 1.0'')"
  unfolding sums_to_one_within_def categorical_init_def sum64_one_ulp_above
  by simp

text \<open>
  Claim C5, amended. Constructing a \<^verbatim>\<open>CategoricalProposal\<close> raises the \<^verbatim>\<open>ValueError\<close>
  if and only if \<^verbatim>\<open>sum(p_N)\<close>, the binary64 sum that Python computes, is not equal to
  \<open>1.0\<close>; when that sum is equal to \<open>1.0\<close> the construction stores \<open>p_N\<close> and
  \<open>N = len(p_N)\<close>; and it raises no other error. No tolerance enters.
\<close>

theorem categorical_init_fails_iff:
  "(categorical_init p = Inl (ValueError ''p_N should sum to 1.0'') \<longleftrightarrow> sum64 p \<noteq> 1) \<and>
   (sum64 p = 1 \<longrightarrow> categorical_init p = Inr \<lparr>p_N = p, N = length p\<rparr>) \<and>
   (\<forall>e. categorical_init p = Inl e \<longrightarrow> e = ValueError ''p_N should sum to 1.0'')"
proof (cases "sum64 p = 1")
  case True
  then show ?thesis unfolding categorical_init_def by simp
next
  case False
  then show ?thesis unfolding categorical_init_def by auto
qed

theorem categorical_init_fails_iff_witness:
  "sum64 [1 / 2, 1 / 2] = 1 \<and>
   categorical_init [1 / 2, 1 / 2] = Inr \<lparr>p_N = [1 / 2, 1 / 2], N = 2\<rparr> \<and>
   categorical_init [1 / 4, 1 / 2] = Inl (ValueError ''p_N should sum to 1.0'') \<and>
   categorical_init [1 / 2, 1 / 2 + 1 / 2 ^ 53] =
     Inr \<lparr>p_N = [1 / 2, 1 / 2 + 1 / 2 ^ 53], N = 2\<rparr> \<and>
   categorical_init [1 / 2, 1 / 2 ^ 54, 1 / 2 ^ 54, 1 / 2 - 1 / 2 ^ 53] =
     Inl (ValueError ''p_N should sum to 1.0'')"
proof -
  have b: "sum64 [1 / 4, 1 / 2] \<noteq> 1"
    unfolding sum64_three_quarters by simp
  have d: "sum64 [1 / 2, 1 / 2 ^ 54, 1 / 2 ^ 54, 1 / 2 - 1 / 2 ^ 53] \<noteq> 1"
    unfolding sum64_absorbs by simp
  from sum64_halves categorical_init_fails_iff [of "[1 / 2, 1 / 2]"]
  have "categorical_init [1 / 2, 1 / 2] =
      Inr \<lparr>p_N = [1 / 2, 1 / 2], N = length [1 / 2, 1 / 2 :: real]\<rparr>"
    by blast
  moreover from b categorical_init_fails_iff [of "[1 / 4, 1 / 2]"]
  have "categorical_init [1 / 4, 1 / 2] = Inl (ValueError ''p_N should sum to 1.0'')"
    by blast
  moreover from sum64_rounds_to_one
    categorical_init_fails_iff [of "[1 / 2, 1 / 2 + 1 / 2 ^ 53]"]
  have "categorical_init [1 / 2, 1 / 2 + 1 / 2 ^ 53] =
      Inr \<lparr>p_N = [1 / 2, 1 / 2 + 1 / 2 ^ 53],
           N = length [1 / 2, 1 / 2 + 1 / 2 ^ 53 :: real]\<rparr>"
    by blast
  moreover from d
    categorical_init_fails_iff [of "[1 / 2, 1 / 2 ^ 54, 1 / 2 ^ 54, 1 / 2 - 1 / 2 ^ 53]"]
  have "categorical_init [1 / 2, 1 / 2 ^ 54, 1 / 2 ^ 54, 1 / 2 - 1 / 2 ^ 53] =
      Inl (ValueError ''p_N should sum to 1.0'')"
    by blast
  ultimately show ?thesis using sum64_halves by simp
qed

subsection \<open>The number of groups that a proposal selects\<close>

lemma draw_distinct_length:
  assumes "n \<le> length pool"
  shows "length (fst (draw_distinct n pool g)) = n"
  using assms
proof (induction n pool g rule: draw_distinct.induct)
  case (1 pool g)
  show ?case by simp
next
  case (2 n g)
  then show ?case by simp
next
  case (3 n p ps g)
  define j where "j = (case g of [] \<Rightarrow> 0 | r # _ \<Rightarrow> r mod length (p # ps))"
  have j: "j < length (p # ps)"
    by (cases g) (simp_all add: j_def)
  define rest where "rest = take j (p # ps) @ drop (Suc j) (p # ps)"
  have lr: "length rest = length ps"
    using j by (auto simp: rest_def min_def)
  with "3.prems" have "n \<le> length rest" by simp
  obtain chosen g' where cg: "draw_distinct n rest (tl g) = (chosen, g')"
    by (cases "draw_distinct n rest (tl g)")
  from "3.IH" [OF j_def, folded rest_def, OF \<open>n \<le> length rest\<close>] cg
  have "length chosen = n" by simp
  moreover have "draw_distinct (Suc n) (p # ps) g = ((p # ps) ! j # chosen, g')"
    using cg by (simp add: j_def rest_def Let_def)
  ultimately show ?case by simp
qed

lemma random_sample_length:
  assumes "random_sample pool n g = Inr (chosen, g')"
  shows "length chosen = n \<and> n \<le> length pool"
proof -
  from assms have n: "n \<le> length pool" and d: "draw_distinct n pool g = (chosen, g')"
    by (auto simp: random_sample_def split: if_splits)
  from draw_distinct_length [OF n, of g] d show ?thesis using n by simp
qed

lemma propose_with_length:
  assumes "propose_with ndraw num_states states pool g = Inr (final, chosen, r)"
  shows "length chosen = ndraw \<and> ndraw \<le> length pool"
proof -
  from assms obtain g' where "random_sample pool ndraw g = Inr (chosen, g')"
    by (auto simp: propose_with_def split: sum.splits prod.splits)
  then show ?thesis by (rule random_sample_length)
qed

text \<open>
  \<^verbatim>\<open>CategoricalProposal.propose_states\<close> never returns: either \<^verbatim>\<open>np.random.choice\<close>
  or \<^verbatim>\<open>random.sample\<close> raises.
\<close>

lemma categorical_propose_states_raises:
  "\<exists>e. categorical_propose_states self u num_states states pool g = Inl e"
proof (cases "np_choice_p (N self) (p_N self) u")
  case (Inl e)
  then show ?thesis by (simp add: categorical_propose_states_def)
next
  case (Inr c)
  then show ?thesis
    by (simp add: categorical_propose_states_def random_sample_ndarray_def Let_def)
qed

lemma proposals_within_pool:
  "uniform_propose_states num_states states pool g = Inr (final, chosen, r)
     \<Longrightarrow> length chosen \<le> length pool"
  "double_propose_states p u num_states states pool g = Inr (final, chosen, r)
     \<Longrightarrow> length chosen \<le> length pool"
  "categorical_propose_states self u num_states states pool g = Inr (final, chosen, r)
     \<Longrightarrow> length chosen \<le> length pool"
proof -
  show "uniform_propose_states num_states states pool g = Inr (final, chosen, r)
     \<Longrightarrow> length chosen \<le> length pool"
    by (auto simp: uniform_propose_states_def dest!: propose_with_length)
  show "double_propose_states p u num_states states pool g = Inr (final, chosen, r)
     \<Longrightarrow> length chosen \<le> length pool"
    by (auto simp: double_propose_states_def Let_def dest!: propose_with_length)
  show "categorical_propose_states self u num_states states pool g = Inr (final, chosen, r)
     \<Longrightarrow> length chosen \<le> length pool"
    using categorical_propose_states_raises [of self u num_states states pool g] by auto
qed

lemma double_pool_of_one:
  assumes "i < length states" and "num_states i > 0"
  shows "\<exists>c < num_states i.
           double_propose_states p u num_states states [i] g = Inr (states[i := c], [i], 0)"
proof -
  define c where "c = (case tl g of [] \<Rightarrow> 0 | r # _ \<Rightarrow> r mod num_states i)"
  have "c < num_states i" using assms(2) by (cases "tl g") (simp_all add: c_def)
  moreover have "random_sample [i] 1 g = Inr ([i], tl g)"
    by (simp add: random_sample_def split: list.splits)
  then have "double_propose_states p u num_states states [i] g =
      Inr (states[i := c], [i], 0)"
    using assms
    by (simp add: double_propose_states_def propose_with_def
        random_choice_range_def c_def)
  ultimately show ?thesis by blast
qed

lemma categorical_one_sum: "sum64 [1] = 1"
  by (simp add: sum64_def fadd_def fl_normal [where m = 52] round_half_even_def)

lemma categorical_one_draw: "np_choice_p 1 [1] (1 / 4) = Inr 0"
proof -
  have a: "fsub 1 1 = 0" by (simp add: fsub_def fl_def)
  have b: "fdiv 1 1 = 1"
    by (simp add: fdiv_def fl_normal [where m = 52] round_half_even_def)
  show ?thesis
    by (simp add: np_choice_p_def kahan_sum_def np_cumsum_def a b)
qed

lemma categorical_one_draw_Suc: "np_choice_p (Suc 0) [1] (1 / 4) = Inr 0"
  using categorical_one_draw by simp

text \<open>
  Claim C6. The claim holds for \<^verbatim>\<open>UniformProposal\<close> and \<^verbatim>\<open>DoubleProposal\<close>: neither
  returns more group indices than the pool holds (\<open>proposals_within_pool\<close>), and with a
  pool of one residue \<^verbatim>\<open>DoubleProposal\<close> returns exactly that residue
  (\<open>double_pool_of_one\<close>). \<^verbatim>\<open>CategoricalProposal\<close> does not return one index for a pool
  of one residue: with \<open>p_N = [1.0]\<close> the only possible draw is \<^verbatim>\<open>ndraw = 1\<close>, which
  fits the pool \<open>[0]\<close>, and \<^verbatim>\<open>random.sample\<close>, handed the one-element array, raises a
  \<^verbatim>\<open>TypeError\<close>.
\<close>

theorem categorical_pool_of_one_raises:
  "categorical_init [1] = Inr \<lparr>p_N = [1], N = 1\<rparr> \<and>
   categorical_propose_states \<lparr>p_N = [1], N = 1\<rparr> (1 / 4) (\<lambda>_. 2) [0] [0] [] =
     Inl (TypeError ''unsupported operand type(s) for *: NoneType and int'')"
  by (simp add: categorical_init_def categorical_one_sum categorical_propose_states_def
      categorical_one_draw_Suc random_sample_ndarray_def)

section \<open>Properties of the calibration\<close>

subsection \<open>Shapes\<close>

lemma np_binary_shape:
  assumes "length ys = length xs \<or> length ys = 1"
  shows "\<exists>zs. np_binary f xs ys = Inr zs \<and> length zs = length xs"
proof (cases "length xs = length ys")
  case True
  then show ?thesis by (simp add: np_binary_def)
next
  case False
  with assms have "length ys = 1" "length xs \<noteq> 1" by auto
  with False show ?thesis by (simp add: np_binary_def)
qed

lemma np_inplace_shape:
  assumes "np_inplace f xs ys = Inr zs"
  shows "length zs = length xs"
  using assms by (auto simp: np_inplace_def split: if_splits)

lemma gain_loop_length:
  assumes "gain_loop stage b n eob pi_j = Inr gains"
  shows "length gains = length pi_j"
  using assms
proof (induction pi_j arbitrary: gains)
  case Nil
  then show ?case by simp
next
  case (Cons p ps)
  from Cons.prems obtain gs where gs: "gain_loop stage b n eob ps = Inr gs"
    and g: "length gains = Suc (length gs)"
    by (auto split: sum.splits if_splits)
  from Cons.IH [OF gs] g show ?case by simp
qed

lemma gain_factor_length:
  assumes "gain_factor self b stage eob g = Inr gains"
  shows "g < length (titrationGroups self) \<and>
         length gains = length (titration_states (titrationGroups self ! g))"
  using assms
  by (auto simp: gain_factor_def get_target_weights_def
      split: if_splits sum.splits dest: gain_loop_length)

lemma binary_update_shape:
  assumes "binary_update self g b stage eob cur = (Inr upd, self')"
  shows "titrationGroups self' = titrationGroups self \<and>
         n_adaptations self' = n_adaptations self \<and>
         length upd = length (titration_states (titrationGroups self ! g))"
proof -
  from assms obtain pi_j where pi: "get_target_weights self g = Inr pi_j"
    by (auto simp: binary_update_def split: sum.splits)
  then have lp: "length pi_j = length (titration_states (titrationGroups self ! g))"
    by (auto simp: get_target_weights_def split: if_splits)
  from assms pi obtain gain where gain: "gain_factor self b stage eob g = Inr gain"
    by (auto simp: binary_update_def Let_def split: sum.splits if_splits)
  from gain_factor_length [OF gain] have lg: "length gain = length pi_j" using lp by simp
  from assms pi gain lg lp show ?thesis
    by (auto simp: binary_update_def Let_def split: if_splits)
qed

lemma global_update_shape:
  assumes "global_update self b stage eob g ub = (Inr upd, self')"
  shows "titrationGroups self' = titrationGroups self \<and>
         n_adaptations self' = n_adaptations self \<and>
         length upd = length (titration_states (titrationGroups self ! g))"
proof -
  from assms obtain zeta where z: "get_gk self g = Inr zeta"
    by (auto simp: global_update_def split: sum.splits)
  from assms z obtain pi_j where pi: "get_target_weights self g = Inr pi_j"
    by (auto simp: global_update_def split: sum.splits)
  then have lp: "length pi_j = length (titration_states (titrationGroups self ! g))"
    by (auto simp: get_target_weights_def split: if_splits)
  from assms z pi obtain log_w where
    lw: "np_binary (-) (map2 (-) (map ln pi_j) zeta) ub = Inr log_w"
    by (auto simp: global_update_def Let_def split: sum.splits)
  from assms z pi lw obtain lse where lse: "logsumexp log_w = Inr lse"
    by (auto simp: global_update_def Let_def split: sum.splits)
  from assms z pi lw lse obtain ratio where
    ratio: "np_binary (/) (map (\<lambda>x. exp (x - lse)) log_w) pi_j = Inr ratio"
    by (auto simp: global_update_def Let_def split: sum.splits)
  from assms z pi lw lse ratio obtain u1 where
    u1: "np_inplace (*) (map (\<lambda>p. 1 / p) pi_j) ratio = Inr u1"
    by (auto simp: global_update_def Let_def split: sum.splits)
  from assms z pi lw lse ratio u1 obtain gain where
    gain: "gain_factor self b stage eob g = Inr gain"
    by (auto simp: global_update_def Let_def split: sum.splits)
  from np_inplace_shape [OF u1] have l1: "length u1 = length pi_j" by simp
  from gain_factor_length [OF gain] lp have lg: "length gain = length pi_j" by simp
  from assms z pi lw lse ratio u1 gain l1 lg lp show ?thesis
    by (auto simp: global_update_def Let_def split: sum.splits)
qed

lemma scheme_update_shape:
  assumes "scheme_update scheme self b stage eob g cur ub = (Inr upd, self')"
  shows "titrationGroups self' = titrationGroups self \<and>
         n_adaptations self' = n_adaptations self \<and>
         length upd = length (titration_states (titrationGroups self ! g))"
  using assms binary_update_shape global_update_shape
  by (auto simp: scheme_update_def split: if_splits)

subsection \<open>\<^verbatim>\<open>set_gk\<close> writes the vector it is given\<close>

lemma set_gk_from_writes:
  assumes "i + length zs \<le> length sts"
  shows "fst (set_gk_from i zs sts) = Inr () \<and>
         length (snd (set_gk_from i zs sts)) = length sts \<and>
         map g_k (snd (set_gk_from i zs sts)) =
           take i (map g_k sts) @ zs @ drop (i + length zs) (map g_k sts)"
  using assms
proof (induction zs arbitrary: i sts)
  case Nil
  then show ?case by simp
next
  case (Cons z zs)
  define sts1 where "sts1 = sts[i := (sts ! i)\<lparr>g_k := z\<rparr>]"
  from Cons.prems have i: "i < length sts" by simp
  have l1: "length sts1 = length sts" by (simp add: sts1_def)
  have m1: "map g_k sts1 = (map g_k sts)[i := z]"
    by (simp add: sts1_def map_update)
  from Cons.prems l1 have "Suc i + length zs \<le> length sts1" by simp
  from Cons.IH [OF this]
  have ih: "fst (set_gk_from (Suc i) zs sts1) = Inr ()"
    "length (snd (set_gk_from (Suc i) zs sts1)) = length sts1"
    "map g_k (snd (set_gk_from (Suc i) zs sts1)) =
       take (Suc i) (map g_k sts1) @ zs @ drop (Suc i + length zs) (map g_k sts1)"
    by simp_all
  have step: "set_gk_from i (z # zs) sts = set_gk_from (Suc i) zs sts1"
    using i by (simp add: sts1_def)
  have t: "take (Suc i) ((map g_k sts)[i := z]) = take i (map g_k sts) @ [z]"
    using i by (simp add: take_Suc_conv_app_nth)
  have d: "drop (Suc i + length zs) ((map g_k sts)[i := z]) =
      drop (i + length (z # zs)) (map g_k sts)"
    by simp
  show ?case
    unfolding step using ih l1 by (simp add: m1 t d)
qed

lemma set_gk_writes:
  assumes "g < length (titrationGroups self)"
    and "length zs = length (titration_states (titrationGroups self ! g))"
  shows "\<exists>self'. set_gk zs g self = (Inr (), self') \<and> get_gk self' g = Inr zs \<and>
           state_counts self' = state_counts self"
proof -
  define grp where "grp = titrationGroups self ! g"
  from assms(2) have le: "0 + length zs \<le> length (titration_states grp)"
    by (simp add: grp_def)
  obtain r sts where rs: "set_gk_from 0 zs (titration_states grp) = (r, sts)"
    by (cases "set_gk_from 0 zs (titration_states grp)")
  from set_gk_from_writes [OF le] rs assms(2)
  have r: "r = Inr ()" and m: "map g_k sts = zs"
    by (simp_all add: grp_def)
  from assms(1) rs r m show ?thesis
    by (simp add: set_gk_def get_gk_def grp_def Let_def)
qed

subsection \<open>A gain decay outside its interval\<close>

lemma gain_factor_bad_b:
  assumes "\<not> (1 / 2 \<le> b \<and> b \<le> 1)"
  shows "gain_factor self b stage eob g = Inl (ValueError ''beta needs to be between 1/2 and 1'')"
  using assms by (simp add: gain_factor_def)

lemma binary_update_bad_b:
  assumes "\<not> (1 / 2 \<le> b \<and> b \<le> 1)"
  shows "\<exists>e. binary_update self g b stage eob cur = (Inl e, self) \<and>
           (reaches_gain_factor ''binary'' g cur ub self \<longrightarrow>
              e = ValueError ''beta needs to be between 1/2 and 1'')"
proof (cases "get_target_weights self g")
  case (Inl e)
  then show ?thesis
    by (auto simp: binary_update_def reaches_gain_factor_def get_target_weights_def
        split: if_splits)
next
  case (Inr pi_j)
  then have pi: "g < length (titrationGroups self)"
    "pi_j = map target_weight (titration_states (titrationGroups self ! g))"
    by (auto simp: get_target_weights_def split: if_splits)
  show ?thesis
    using Inr pi gain_factor_bad_b [OF assms, of self stage eob g]
    by (auto simp: binary_update_def reaches_gain_factor_def Let_def list_ex_iff)
qed

lemma global_update_bad_b:
  assumes "\<not> (1 / 2 \<le> b \<and> b \<le> 1)"
  shows "\<exists>e. global_update self b stage eob g ub = (Inl e, self) \<and>
           (reaches_gain_factor ''global'' g cur ub self \<longrightarrow>
              e = ValueError ''beta needs to be between 1/2 and 1'')"
proof (cases "g < length (titrationGroups self)")
  case False
  then show ?thesis
    by (simp add: global_update_def get_gk_def reaches_gain_factor_def)
next
  case True
  define sts where "sts = titration_states (titrationGroups self ! g)"
  define lw where "lw = np_binary (-) (map2 (-) (map ln (map target_weight sts)) (map g_k sts)) ub"
  have gk: "get_gk self g = Inr (map g_k sts)"
    and tw: "get_target_weights self g = Inr (map target_weight sts)"
    using True by (simp_all add: get_gk_def get_target_weights_def sts_def)
  have gf: "gain_factor self b stage eob g = Inl (ValueError ''beta needs to be between 1/2 and 1'')"
    by (rule gain_factor_bad_b [OF assms])
  show ?thesis
  proof (cases "reaches_gain_factor ''global'' g cur ub self")
    case False
    then show ?thesis
      using gk tw gf
      by (simp add: global_update_def Let_def split: sum.splits)
  next
    case wf: True
    then have ne: "sts \<noteq> []" and len: "length ub = length sts \<or> length ub = 1"
      by (simp_all add: reaches_gain_factor_def sts_def Let_def)
    obtain log_w where lw: "np_binary (-) (map2 (-) (map ln (map target_weight sts)) (map g_k sts)) ub = Inr log_w"
      and llw: "length log_w = length sts"
      using np_binary_shape [of ub "map2 (-) (map ln (map target_weight sts)) (map g_k sts)" "(-)"] len
      by auto
    from ne llw have "log_w \<noteq> []" by auto
    then obtain lse where lse: "logsumexp log_w = Inr lse"
      by (simp add: logsumexp_def)
    obtain ratio where ratio: "np_binary (/) (map (\<lambda>x. exp (x - lse)) log_w) (map target_weight sts) = Inr ratio"
      and lr: "length ratio = length sts"
      using np_binary_shape [of "map target_weight sts" "map (\<lambda>x. exp (x - lse)) log_w" "(/)"] llw
      by auto
    obtain upd where upd: "np_inplace (*) (map (\<lambda>p. 1 / p) (map target_weight sts)) ratio = Inr upd"
      using lr by (simp add: np_inplace_def)
    show ?thesis
      using gk tw gf lw lse ratio upd
      by (simp add: global_update_def Let_def)
  qed
qed

lemma scheme_update_bad_b:
  assumes "\<not> (1 / 2 \<le> b \<and> b \<le> 1)"
  shows "\<exists>e. scheme_update scheme self b stage eob g cur ub = (Inl e, self) \<and>
           (reaches_gain_factor scheme g cur ub self \<longrightarrow>
              e = ValueError ''beta needs to be between 1/2 and 1'')"
proof -
  consider "scheme = ''binary''" | "scheme = ''global''"
    | "scheme \<noteq> ''binary''" "scheme \<noteq> ''global''" by blast
  then show ?thesis
  proof cases
    case 1
    with binary_update_bad_b [OF assms, of self g stage eob cur ub] show ?thesis
      by (simp add: scheme_update_def)
  next
    case 2
    with global_update_bad_b [OF assms, of self stage eob g ub cur] show ?thesis
      by (simp add: scheme_update_def)
  next
    case 3
    then show ?thesis
      by (simp add: scheme_update_def reaches_gain_factor_def Let_def)
  qed
qed

lemma reaches_gain_factor_counter:
  "reaches_gain_factor scheme g cur ub (self\<lparr>n_adaptations := n\<rparr>) =
   reaches_gain_factor scheme g cur ub self"
  by (simp add: reaches_gain_factor_def)

text \<open>
  What a call with \<open>b\<close> outside \<open>[0.5, 1.0]\<close> does: it raises, and the state it leaves
  behind differs from the state before the call in \<^verbatim>\<open>n_adaptations\<close> alone, which is one
  more; \<^verbatim>\<open>state_counts\<close> and every \<^verbatim>\<open>g_k\<close> are untouched. For a call that gets as far
  as \<^verbatim>\<open>_gain_factor\<close> the error is that function's \<^verbatim>\<open>ValueError\<close>.
\<close>

lemma adapt_zetas_bad_gain_decay:
  assumes "\<not> (1 / 2 \<le> b \<and> b \<le> 1)"
  shows "\<exists>e. adapt_zetas scheme b stage end_of_burnin group_index current_state ub_j self =
              (Inl e, self\<lparr>n_adaptations := n_adaptations self + 1\<rparr>) \<and>
             (reaches_gain_factor scheme group_index current_state ub_j self \<longrightarrow>
                e = ValueError ''beta needs to be between 1/2 and 1'')"
proof -
  define self1 where "self1 = self\<lparr>n_adaptations := n_adaptations self + 1\<rparr>"
  show ?thesis
  proof (cases "get_gk self1 group_index")
    case (Inl e)
    then have "adapt_zetas scheme b stage end_of_burnin group_index current_state ub_j self =
        (Inl e, self1)"
      by (simp add: adapt_zetas_def self1_def Let_def)
    moreover from Inl have "\<not> reaches_gain_factor scheme group_index current_state ub_j self"
      by (auto simp: get_gk_def reaches_gain_factor_def self1_def split: if_splits)
    ultimately show ?thesis by (simp add: self1_def)
  next
    case (Inr zeta)
    from scheme_update_bad_b [OF assms, of scheme self1 stage end_of_burnin group_index
        current_state ub_j]
    obtain e where e: "scheme_update scheme self1 b stage end_of_burnin group_index
          current_state ub_j = (Inl e, self1)"
        "reaches_gain_factor scheme group_index current_state ub_j self1 \<longrightarrow>
           e = ValueError ''beta needs to be between 1/2 and 1''"
      by blast
    from Inr e(1) have "adapt_zetas scheme b stage end_of_burnin group_index current_state
        ub_j self = (Inl e, self1)"
      by (simp add: adapt_zetas_def self1_def Let_def)
    with e(2) show ?thesis
      by (simp add: self1_def reaches_gain_factor_counter)
  qed
qed

lemma adapt_zetas_bad_gain_decay_example:
  "\<not> (1 / 2 \<le> (2::real) \<and> (2::real) \<le> 1) \<and>
   reaches_gain_factor ''binary'' 0 0 []
     \<lparr>n_adaptations = 0, state_counts = [0, 0],
      titrationGroups = [\<lparr>titration_states =
        [\<lparr>g_k = 0, target_weight = 1 / 2\<rparr>, \<lparr>g_k = 0, target_weight = 1 / 2\<rparr>]\<rparr>]\<rparr> \<and>
   (\<exists>e. adapt_zetas ''binary'' 2 ''slow-gain'' 0 0 0 []
     \<lparr>n_adaptations = 0, state_counts = [0, 0],
      titrationGroups = [\<lparr>titration_states =
        [\<lparr>g_k = 0, target_weight = 1 / 2\<rparr>, \<lparr>g_k = 0, target_weight = 1 / 2\<rparr>]\<rparr>]\<rparr> =
     (Inl e, \<lparr>n_adaptations = 1, state_counts = [0, 0],
      titrationGroups = [\<lparr>titration_states =
        [\<lparr>g_k = 0, target_weight = 1 / 2\<rparr>, \<lparr>g_k = 0, target_weight = 1 / 2\<rparr>]\<rparr>]\<rparr>) \<and>
     e = ValueError ''beta needs to be between 1/2 and 1'')"
proof -
  have b: "\<not> (1 / 2 \<le> (2::real) \<and> (2::real) \<le> 1)" by simp
  have r: "reaches_gain_factor ''binary'' 0 0 []
     \<lparr>n_adaptations = 0, state_counts = [0, 0],
      titrationGroups = [\<lparr>titration_states =
        [\<lparr>g_k = 0, target_weight = 1 / 2\<rparr>, \<lparr>g_k = 0, target_weight = 1 / 2\<rparr>]\<rparr>]\<rparr>"
    by (simp add: reaches_gain_factor_def)
  from adapt_zetas_bad_gain_decay [OF b, of "''binary''" "''slow-gain''" 0 0 0 "[]"
      "\<lparr>n_adaptations = 0, state_counts = [0, 0],
      titrationGroups = [\<lparr>titration_states =
        [\<lparr>g_k = 0, target_weight = 1 / 2\<rparr>, \<lparr>g_k = 0, target_weight = 1 / 2\<rparr>]\<rparr>]\<rparr>"] r
  have "\<exists>e. adapt_zetas ''binary'' 2 ''slow-gain'' 0 0 0 []
     \<lparr>n_adaptations = 0, state_counts = [0, 0],
      titrationGroups = [\<lparr>titration_states =
        [\<lparr>g_k = 0, target_weight = 1 / 2\<rparr>, \<lparr>g_k = 0, target_weight = 1 / 2\<rparr>]\<rparr>]\<rparr> =
     (Inl e, \<lparr>n_adaptations = 1, state_counts = [0, 0],
      titrationGroups = [\<lparr>titration_states =
        [\<lparr>g_k = 0, target_weight = 1 / 2\<rparr>, \<lparr>g_k = 0, target_weight = 1 / 2\<rparr>]\<rparr>]\<rparr>) \<and>
     e = ValueError ''beta needs to be between 1/2 and 1''"
    by auto
  with b r show ?thesis by blast
qed

text \<open>
  Claim C7. A call with \<open>b\<close> outside \<open>[0.5, 1.0]\<close> should leave \<^verbatim>\<open>n_adaptations\<close>,
  \<^verbatim>\<open>state_counts\<close> and every \<^verbatim>\<open>g_k\<close> as they were. With \<open>b = 2\<close> the call raises the
  \<^verbatim>\<open>ValueError\<close> of \<^verbatim>\<open>_gain_factor\<close>, and the engine that had adapted 0 times now counts
  1 adaptation, against the description of the attribute (the number of times the
  relative free energies have been adapted): the counter is incremented on the first
  line of \<^verbatim>\<open>adapt_zetas\<close>, before \<^verbatim>\<open>_gain_factor\<close> looks at \<open>b\<close>.
\<close>

theorem adapt_zetas_counts_failed_call:
  "adapt_zetas ''binary'' 2 ''slow-gain'' 0 0 0 []
     \<lparr>n_adaptations = 0, state_counts = [0, 0],
      titrationGroups = [\<lparr>titration_states =
        [\<lparr>g_k = 0, target_weight = 1 / 2\<rparr>, \<lparr>g_k = 0, target_weight = 1 / 2\<rparr>]\<rparr>]\<rparr> =
   (Inl (ValueError ''beta needs to be between 1/2 and 1''),
     \<lparr>n_adaptations = 1, state_counts = [0, 0],
      titrationGroups = [\<lparr>titration_states =
        [\<lparr>g_k = 0, target_weight = 1 / 2\<rparr>, \<lparr>g_k = 0, target_weight = 1 / 2\<rparr>]\<rparr>]\<rparr>) \<and>
   n_adaptations (snd (adapt_zetas ''binary'' 2 ''slow-gain'' 0 0 0 []
     \<lparr>n_adaptations = 0, state_counts = [0, 0],
      titrationGroups = [\<lparr>titration_states =
        [\<lparr>g_k = 0, target_weight = 1 / 2\<rparr>, \<lparr>g_k = 0, target_weight = 1 / 2\<rparr>]\<rparr>]\<rparr>)) \<noteq> 0"
  by (simp add: adapt_zetas_def get_gk_def scheme_update_def binary_update_def
      get_target_weights_def gain_factor_def Let_def)

subsection \<open>Re-centring\<close>

lemma adapt_example:
  "adapt_zetas ''binary'' 1 ''burn-in'' 0 0 0 []
     \<lparr>n_adaptations = 0, state_counts = [0, 0],
      titrationGroups = [\<lparr>titration_states =
        [\<lparr>g_k = 0, target_weight = 1 / 2\<rparr>, \<lparr>g_k = 0, target_weight = 1 / 2\<rparr>]\<rparr>]\<rparr> =
   (Inr 1,
     \<lparr>n_adaptations = 1, state_counts = [1, 0],
      titrationGroups = [\<lparr>titration_states =
        [\<lparr>g_k = 0, target_weight = 1 / 2\<rparr>, \<lparr>g_k = - 1, target_weight = 1 / 2\<rparr>]\<rparr>]\<rparr>)"
  by (simp add: adapt_zetas_def get_gk_def scheme_update_def binary_update_def
      get_target_weights_def gain_factor_def Let_def np_inplace_def set_gk_def
      np_binary_def)

lemma adapt_example_global:
  "adapt_zetas ''global'' 1 ''burn-in'' 0 0 0 [0, 0]
     \<lparr>n_adaptations = 0, state_counts = [0, 0],
      titrationGroups = [\<lparr>titration_states =
        [\<lparr>g_k = 0, target_weight = 1 / 2\<rparr>, \<lparr>g_k = 0, target_weight = 1 / 2\<rparr>]\<rparr>]\<rparr> =
   (Inr 0,
     \<lparr>n_adaptations = 1, state_counts = [1 / 2, 1 / 2],
      titrationGroups = [\<lparr>titration_states =
        [\<lparr>g_k = 0, target_weight = 1 / 2\<rparr>, \<lparr>g_k = 0, target_weight = 1 / 2\<rparr>]\<rparr>]\<rparr>)"
proof -
  have e: "exp (- ln 2) = (1 / 2 :: real)"
    by (simp add: exp_minus)
  have l: "ln (exp (- ln 2) + exp (- ln 2)) = (0::real)"
    by (simp add: e)
  show ?thesis
    by (simp add: adapt_zetas_def get_gk_def scheme_update_def global_update_def
      get_target_weights_def gain_factor_def Let_def np_inplace_def set_gk_def
      np_binary_def logsumexp_def ln_div e l)
qed

text \<open>
  Claim C8. After a call of \<^verbatim>\<open>adapt_zetas\<close> that returns, for either scheme, the vector
  of \<^verbatim>\<open>g_k\<close> of the group is the old vector plus the update of the scheme, entry by
  entry, minus the entry of index 0 of that sum; so the \<^verbatim>\<open>g_k\<close> of the state of index 0
  is 0.
\<close>

theorem adapt_zetas_recentres:
  assumes "adapt_zetas scheme b stage end_of_burnin group_index current_state ub_j self =
             (Inr deviation, self')"
  shows "\<exists>zeta update self2.
           get_gk self group_index = Inr zeta \<and>
           scheme_update scheme (self\<lparr>n_adaptations := n_adaptations self + 1\<rparr>) b stage
             end_of_burnin group_index current_state ub_j = (Inr update, self2) \<and>
           length update = length zeta \<and>
           get_gk self' group_index =
             Inr (map (\<lambda>z. z - hd (map2 (+) zeta update)) (map2 (+) zeta update)) \<and>
           g_k (titration_states (titrationGroups self' ! group_index) ! 0) = 0"
proof -
  define self1 where "self1 = self\<lparr>n_adaptations := n_adaptations self + 1\<rparr>"
  from assms obtain zeta where z1: "get_gk self1 group_index = Inr zeta"
    by (auto simp: adapt_zetas_def self1_def Let_def split: sum.splits)
  then have g: "group_index < length (titrationGroups self)"
    and zeta: "zeta = map g_k (titration_states (titrationGroups self ! group_index))"
    by (auto simp: get_gk_def self1_def split: if_splits)
  then have z0: "get_gk self group_index = Inr zeta"
    by (simp add: get_gk_def)
  obtain r self2 where su: "scheme_update scheme self1 b stage end_of_burnin group_index
      current_state ub_j = (r, self2)"
    by (cases "scheme_update scheme self1 b stage end_of_burnin group_index current_state ub_j")
  from assms z1 su obtain update where r: "r = Inr update"
    by (cases r) (auto simp: adapt_zetas_def self1_def Let_def)
  from scheme_update_shape [OF su [unfolded r]]
  have grp2: "titrationGroups self2 = titrationGroups self"
    and lu: "length update = length zeta"
    by (simp_all add: self1_def zeta)
  define zeta1 where "zeta1 = map2 (+) zeta update"
  have ip: "np_inplace (+) zeta update = Inr zeta1"
    using lu by (simp add: np_inplace_def zeta1_def)
  have l1: "length zeta1 = length zeta" using lu by (simp add: zeta1_def)
  from assms z1 su r ip obtain zeta_0 rest where z1c: "zeta1 = zeta_0 # rest"
    by (cases zeta1) (auto simp: adapt_zetas_def self1_def Let_def)
  define zeta_t where "zeta_t = map (\<lambda>z. z - zeta_0) zeta1"
  have lt: "length zeta_t = length (titration_states (titrationGroups self2 ! group_index))"
    using l1 by (simp add: zeta_t_def grp2 zeta)
  from g grp2 have g2: "group_index < length (titrationGroups self2)" by simp
  from set_gk_writes [OF g2 lt] obtain self3 where
    s3: "set_gk zeta_t group_index self2 = (Inr (), self3)"
    and gk3: "get_gk self3 group_index = Inr zeta_t"
    by blast
  from assms z1 su r ip z1c s3 have "self' = self3"
    by (auto simp: adapt_zetas_def self1_def Let_def zeta_t_def split: sum.splits)
  with gk3 have gk': "get_gk self' group_index = Inr zeta_t" by simp
  have hd1: "hd zeta1 = zeta_0" by (simp add: z1c)
  have zt: "zeta_t = map (\<lambda>z. z - hd (map2 (+) zeta update)) (map2 (+) zeta update)"
    using hd1 by (simp add: zeta_t_def zeta1_def)
  from gk' have "map g_k (titration_states (titrationGroups self' ! group_index)) = zeta_t"
    by (auto simp: get_gk_def split: if_splits)
  moreover have "zeta_t ! 0 = 0" by (simp add: zeta_t_def z1c)
  moreover have "titration_states (titrationGroups self' ! group_index) \<noteq> []"
    using calculation(1) by (auto simp: zeta_t_def z1c)
  ultimately have "g_k (titration_states (titrationGroups self' ! group_index) ! 0) = 0"
    by (metis length_greater_0_conv nth_map)
  with z0 su r lu gk' zt show ?thesis
    by (auto simp: self1_def)
qed

theorem adapt_zetas_recentres_witness:
  "adapt_zetas ''binary'' 1 ''burn-in'' 0 0 0 []
     \<lparr>n_adaptations = 0, state_counts = [0, 0],
      titrationGroups = [\<lparr>titration_states =
        [\<lparr>g_k = 0, target_weight = 1 / 2\<rparr>, \<lparr>g_k = 0, target_weight = 1 / 2\<rparr>]\<rparr>]\<rparr> =
   (Inr 1,
     \<lparr>n_adaptations = 1, state_counts = [1, 0],
      titrationGroups = [\<lparr>titration_states =
        [\<lparr>g_k = 0, target_weight = 1 / 2\<rparr>, \<lparr>g_k = - 1, target_weight = 1 / 2\<rparr>]\<rparr>]\<rparr>) \<and>
   get_gk \<lparr>n_adaptations = 1, state_counts = [1, 0],
      titrationGroups = [\<lparr>titration_states =
        [\<lparr>g_k = 0, target_weight = 1 / 2\<rparr>, \<lparr>g_k = - 1, target_weight = 1 / 2\<rparr>]\<rparr>]\<rparr> 0 =
     Inr [0, - 1] \<and>
   g_k (titration_states (titrationGroups \<lparr>n_adaptations = 1, state_counts = [1, 0],
      titrationGroups = [\<lparr>titration_states =
        [\<lparr>g_k = 0, target_weight = 1 / 2\<rparr>, \<lparr>g_k = - 1, target_weight = 1 / 2\<rparr>]\<rparr>]\<rparr> ! 0) ! 0) = 0 \<and>
   adapt_zetas ''global'' 1 ''burn-in'' 0 0 0 [0, 0]
     \<lparr>n_adaptations = 0, state_counts = [0, 0],
      titrationGroups = [\<lparr>titration_states =
        [\<lparr>g_k = 0, target_weight = 1 / 2\<rparr>, \<lparr>g_k = 0, target_weight = 1 / 2\<rparr>]\<rparr>]\<rparr> =
   (Inr 0,
     \<lparr>n_adaptations = 1, state_counts = [1 / 2, 1 / 2],
      titrationGroups = [\<lparr>titration_states =
        [\<lparr>g_k = 0, target_weight = 1 / 2\<rparr>, \<lparr>g_k = 0, target_weight = 1 / 2\<rparr>]\<rparr>]\<rparr>) \<and>
   g_k (titration_states (titrationGroups \<lparr>n_adaptations = 1, state_counts = [1 / 2, 1 / 2],
      titrationGroups = [\<lparr>titration_states =
        [\<lparr>g_k = 0, target_weight = 1 / 2\<rparr>, \<lparr>g_k = 0, target_weight = 1 / 2\<rparr>]\<rparr>]\<rparr> ! 0) ! 0) = 0"
  using adapt_zetas_recentres [OF adapt_example] adapt_example
    adapt_zetas_recentres [OF adapt_example_global] adapt_example_global
  by (simp add: get_gk_def)

section \<open>Properties of the population models\<close>

text \<open>
  At \<open>pH = 7.1\<close> the constant \<^verbatim>\<open>ke\<close> is 1 and \<^verbatim>\<open>kd\<close> is \<open>10 powr 0.6\<close>, so the
  epsilon and the delta form do not have the same concentration.
\<close>

theorem histidine_hie_differs_from_hid_at_pka_e:
  "hie_concentration (histidine_init (71 / 10)) \<noteq> hid_concentration (histidine_init (71 / 10))"
proof -
  have pos: "(10::real) powr (3 / 5) + 2 > 0"
    by (simp add: add_pos_nonneg)
  have "(10::real) powr (3 / 5) \<noteq> 1"
    by (simp add: powr_eq_one_iff_gen)
  then show ?thesis using pos
    by (simp add: hie_concentration_def hid_concentration_def histidine_init_def
        pka_d_def pka_e_def)
qed

text \<open>
  Claim C9, amended. At \<open>pH = 7.1\<close>, which is \<^verbatim>\<open>pka_e\<close>, \<^verbatim>\<open>hie_concentration()\<close> equals
  \<^verbatim>\<open>hip_concentration()\<close>; at \<open>pH = 6.5\<close>, which is \<^verbatim>\<open>pka_d\<close>,
  \<^verbatim>\<open>hip_concentration()\<close> equals \<^verbatim>\<open>hid_concentration()\<close>.
\<close>

theorem histidine_crossings:
  "hie_concentration (histidine_init pka_e) = hip_concentration (histidine_init pka_e) \<and>
   hip_concentration (histidine_init pka_d) = hid_concentration (histidine_init pka_d)"
  by (simp add: hie_concentration_def hip_concentration_def hid_concentration_def
      histidine_init_def)

lemma histidine_populations_sum:
  "sum_list (histidine_populations (histidine_init pH)) = 1"
proof -
  define a where "a = 10 powr (pH - pka_d)"
  define b where "b = 10 powr (pH - pka_e)"
  define d where "d = b + a + 1"
  have "d > 0" unfolding d_def a_def b_def by (simp add: add_pos_nonneg)
  have "1 / d + (a / d + b / d) = (1 + (a + b)) / d"
    by (simp add: add_divide_distrib)
  also have "1 + (a + b) = d" by (simp add: d_def)
  also have "d / d = 1" using \<open>d > 0\<close> by simp
  finally show ?thesis
    by (simp add: histidine_populations_def hip_concentration_def hid_concentration_def
        hie_concentration_def histidine_init_def d_def a_def b_def)
qed

lemma acid_populations_sum:
  "sum_list (acid_populations (acid_init c pH)) = 1"
proof -
  define a where "a = 10 powr (pH - pka c)"
  define d where "d = a + 1"
  have "d > 0" unfolding d_def a_def by (simp add: add_pos_nonneg)
  have "1 / d + a / d = (1 + a) / d"
    by (simp add: add_divide_distrib)
  also have "1 + a = d" by (simp add: d_def)
  also have "d / d = 1" using \<open>d > 0\<close> by simp
  finally have two: "1 / d + a / d = 1" .
  have "a / d + (1 / d / 4 + (1 / d / 4 + (1 / d / 4 + 1 / d / 4))) = 1 / d + a / d"
    by simp
  with two have five: "a / d + (1 / d / 4 + (1 / d / 4 + (1 / d / 4 + 1 / d / 4))) = 1"
    by simp
  show ?thesis
    using two five
    by (cases c)
      (simp_all add: acid_populations_def acid_init_def protonated_concentration_def
        deprotonated_concenration_def Let_def d_def a_def)
qed

subsection \<open>The sum in binary64\<close>

lemma aspartic4_entries64:
  "aspartic4_populations64 10 =
     [8188362958855447 / 2 ^ 53, 3275345183542179 / 2 ^ 57, 3275345183542179 / 2 ^ 57,
      3275345183542179 / 2 ^ 57, 3275345183542179 / 2 ^ 57]"
proof -
  have d: "fadd 10 1 = 11"
    by (simp add: fadd_def fl_normal [where m = 49] round_half_even_def)
  have q: "fdiv 10 11 = 8188362958855447 / 2 ^ 53"
    by (simp add: fdiv_def fl_normal [where m = 53] round_half_even_def)
  have p: "fdiv 1 11 = 3275345183542179 / 2 ^ 55"
    by (simp add: fdiv_def fl_normal [where m = 56] round_half_even_def)
  have a: "fdiv (3275345183542179 / 2 ^ 55) 4 = 3275345183542179 / 2 ^ 57"
    by (simp add: fdiv_def fl_normal [where m = 58] round_half_even_def)
  show ?thesis
    by (simp only: aspartic4_populations64_def protonated_concentration64_def
        deprotonated_concenration64_def Let_def d q p a)
qed

lemma aspartic4_sum64:
  "sum64 [8188362958855447 / 2 ^ 53, 3275345183542179 / 2 ^ 57, 3275345183542179 / 2 ^ 57,
      3275345183542179 / 2 ^ 57, 3275345183542179 / 2 ^ 57] = 9007199254740991 / 2 ^ 53"
proof -
  have s1: "fadd 0 (8188362958855447 / 2 ^ 53) = 8188362958855447 / 2 ^ 53"
    by (simp add: fadd_def fl_normal [where m = 53] round_half_even_def)
  have s2: "fadd (8188362958855447 / 2 ^ 53) (3275345183542179 / 2 ^ 57) =
      8393072032826833 / 2 ^ 53"
    by (simp add: fadd_def fl_normal [where m = 53] round_half_even_def)
  have s3: "fadd (8393072032826833 / 2 ^ 53) (3275345183542179 / 2 ^ 57) =
      8597781106798219 / 2 ^ 53"
    by (simp add: fadd_def fl_normal [where m = 53] round_half_even_def)
  have s4: "fadd (8597781106798219 / 2 ^ 53) (3275345183542179 / 2 ^ 57) =
      8802490180769605 / 2 ^ 53"
    by (simp add: fadd_def fl_normal [where m = 53] round_half_even_def)
  have s5: "fadd (8802490180769605 / 2 ^ 53) (3275345183542179 / 2 ^ 57) =
      9007199254740991 / 2 ^ 53"
    by (simp add: fadd_def fl_normal [where m = 53] round_half_even_def)
  show ?thesis
    by (simp only: sum64_def foldl.simps s1 s2 s3 s4 s5)
qed

text \<open>
  \<^verbatim>\<open>Aspartic4(5.0)\<close> stores \<open>k = pow(10.0, 1.0) = 10.0\<close>. Its five populations, added
  by Python's \<^verbatim>\<open>sum\<close> in binary64, give the float just below 1.
\<close>

theorem aspartic4_binary64_sum_below_one:
  "k (acid_init Aspartic4 5) = 10 \<and>
   sum64 (aspartic4_populations64 10) = 1 - 1 / 2 ^ 53 \<and>
   sum64 (aspartic4_populations64 10) \<noteq> 1"
proof -
  have "sum64 (aspartic4_populations64 10) = 9007199254740991 / 2 ^ 53"
    by (simp only: aspartic4_entries64 aspartic4_sum64)
  then show ?thesis by (simp add: acid_init_def)
qed

text \<open>
  Claim C10, amended. For each of the six population models and every pH, the entries of
  \<^verbatim>\<open>populations()\<close> sum to 1 when the arithmetic is exact.
\<close>

theorem populations_sum_to_one:
  "sum_list (populations m pH) = 1"
  by (cases m) (simp_all add: histidine_populations_sum acid_populations_sum)

end
